theory Spec2Isabelle
  imports Main "HOL-Library.Word" "HOL-Library.Signed_Division"
begin

unbundle bit_operations_syntax

section \<open>Common definitions (DisplayDefs.h)\<close>

text \<open>
  The target is a 32-bit ARM microcontroller: C's \<open>int\<close> and \<open>int32_t\<close> are
  \<open>32 word\<close>, \<open>loc_t\<close> (\<open>int16_t\<close>) is \<open>16 word\<close>, \<open>unsigned char\<close> is
  \<open>8 word\<close>. Signed arithmetic is two's complement: \<open>+\<close>, \<open>-\<close> and \<open>*\<close> wrap
  around, which is what the target's instructions do where ISO C leaves signed
  overflow undefined.
\<close>

datatype RetCode_t =
    noerror | bad_parameter | file_not_found | not_bmp_format | not_ico_format
  | not_supported_format | image_too_big | not_enough_ram | touch_cal_timeout
  | external_abort | LastErrCode

datatype TouchCode_t = no_touch | touch | held | release | no_cal

type_synonym loc_t = "16 word"

text \<open>\<open>point_t\<close>: the fields \<open>x\<close> and \<open>y\<close> of the source are \<open>pt_x\<close> and \<open>pt_y\<close>.\<close>

record point_t =
  pt_x :: loc_t
  pt_y :: loc_t

record tpMatrix_t =
  An :: "32 word"
  Bn :: "32 word"
  Cn :: "32 word"
  Dn :: "32 word"
  En :: "32 word"
  Fn :: "32 word"
  Divider :: "32 word"

section \<open>The touch panel driver state (RA8875.h)\<close>

datatype WhichTP_T = TP_NONE | TP_RES | TP_FT5206 | TP_GSL1680

record touchInfo_T =
  touchID :: "8 word"
  touchCode :: TouchCode_t
  coordinates :: point_t

text \<open>
  The members of class \<open>RA8875\<close> that the touch code reads or writes, together with
  the function-local statics of \<open>TouchPanelA2DFiltered\<close> (\<open>xbuf\<close>, \<open>ybuf\<close>,
  \<open>lastX\<close>, \<open>lastY\<close>). \<open>timeSinceTouch\<close> is the value \<open>timeSinceTouch.read_us()\<close>
  returns; \<open>touchInfo\<close> is the array the constructor allocates.
\<close>

record RA8875 =
  useTouchPanel :: WhichTP_T
  touchState :: TouchCode_t
  touchInfo :: "touchInfo_T list"
  panelTouched :: bool
  numberOfTouchPoints :: "16 word"
  touchSample :: nat
  timeSinceTouch :: int
  tpMatrix :: tpMatrix_t
  xbuf :: "32 word list"
  ybuf :: "32 word list"
  lastX :: "32 word"
  lastY :: "32 word"

definition NOTOUCH_TIMEOUT_uS :: int where
  "NOTOUCH_TIMEOUT_uS = 100000"

definition TPBUFSIZE :: nat where
  "TPBUFSIZE = 16"

section \<open>The staleness tick (\<open>_TouchTicker\<close>)\<close>

definition TouchTicker :: "RA8875 \<Rightarrow> RA8875" where
  "TouchTicker s =
     (if timeSinceTouch s > NOTOUCH_TIMEOUT_uS then
        s\<lparr> touchSample := 0,
           touchState := (if touchState s = held then release else no_touch),
           timeSinceTouch := 0 \<rparr>
      else s)"

section \<open>The calibration solver (\<open>TouchPanelComputeCalibration\<close>)\<close>

text \<open>
  Integer promotion of a \<open>loc_t\<close> operand to \<open>int\<close>.
\<close>

definition int_of_loc :: "loc_t \<Rightarrow> 32 word" where
  "int_of_loc v = scast v"

text \<open>
  The two arrays of three points are triples. \<open>matrixPtr\<close> is \<open>None\<close> for a null
  pointer and \<open>Some m\<close> for a pointer to a matrix holding \<open>m\<close>; the second component
  of the result is what it points to afterwards.
\<close>

definition TouchPanelComputeCalibration ::
  "point_t \<times> point_t \<times> point_t \<Rightarrow> point_t \<times> point_t \<times> point_t \<Rightarrow> tpMatrix_t option \<Rightarrow> RA8875
     \<Rightarrow> RetCode_t \<times> tpMatrix_t option \<times> RA8875" where
  "TouchPanelComputeCalibration displayPtr screenPtr matrixPtr s =
     (case (displayPtr, screenPtr) of ((d0, d1, d2), (s0, s1, s2)) \<Rightarrow>
      let xd0 = int_of_loc (pt_x d0); yd0 = int_of_loc (pt_y d0);
          xd1 = int_of_loc (pt_x d1); yd1 = int_of_loc (pt_y d1);
          xd2 = int_of_loc (pt_x d2); yd2 = int_of_loc (pt_y d2);
          xs0 = int_of_loc (pt_x s0); ys0 = int_of_loc (pt_y s0);
          xs1 = int_of_loc (pt_x s1); ys1 = int_of_loc (pt_y s1);
          xs2 = int_of_loc (pt_x s2); ys2 = int_of_loc (pt_y s2);
          m1 = (tpMatrix s)\<lparr> Divider := ((xs0 - xs2) * (ys1 - ys2)) - ((xs1 - xs2) * (ys0 - ys2)) \<rparr>
      in if Divider m1 = 0 then (bad_parameter, matrixPtr, s\<lparr> tpMatrix := m1 \<rparr>)
         else
           let m2 = m1\<lparr>
                 An := ((xd0 - xd2) * (ys1 - ys2)) - ((xd1 - xd2) * (ys0 - ys2)),
                 Bn := ((xs0 - xs2) * (xd1 - xd2)) - ((xd0 - xd2) * (xs1 - xs2)),
                 Cn := (xs2 * xd1 - xs1 * xd2) * ys0 +
                       (xs0 * xd2 - xs2 * xd0) * ys1 +
                       (xs1 * xd0 - xs0 * xd1) * ys2,
                 Dn := ((yd0 - yd2) * (ys1 - ys2)) - ((yd1 - yd2) * (ys0 - ys2)),
                 En := ((xs0 - xs2) * (yd1 - yd2)) - ((yd0 - yd2) * (xs1 - xs2)),
                 Fn := (xs2 * yd1 - xs1 * yd2) * ys0 +
                       (xs0 * yd2 - xs2 * yd0) * ys1 +
                       (xs1 * yd0 - xs0 * yd1) * ys2 \<rparr>
           in (noerror,
               (case matrixPtr of None \<Rightarrow> None | Some _ \<Rightarrow> Some m2),
               s\<lparr> tpMatrix := m2, touchState := no_touch \<rparr>))"


section \<open>Touch channels and per-channel accessors\<close>

text \<open>
  \<open>GSL1680_TOUCH_POINTS\<close> is a macro of the GSL1680 firmware header, which is not
  part of the sources at hand: it is a parameter here.
\<close>

definition TouchChannels :: "nat \<Rightarrow> RA8875 \<Rightarrow> int" where
  "TouchChannels GSL1680_TOUCH_POINTS s =
     (if useTouchPanel s = TP_GSL1680 then int GSL1680_TOUCH_POINTS
      else if useTouchPanel s = TP_FT5206 then 5
      else if useTouchPanel s = TP_RES then 1
      else 0)"

text \<open>
  The channel argument after the range check of the three accessors:
  \<open>if (channel >= TouchChannels()) channel = 0;\<close>
\<close>

definition clamp_channel :: "nat \<Rightarrow> RA8875 \<Rightarrow> 8 word \<Rightarrow> 8 word" where
  "clamp_channel GSL1680_TOUCH_POINTS s channel =
     (if uint channel \<ge> TouchChannels GSL1680_TOUCH_POINTS s then 0 else channel)"

text \<open>
  \<open>touchInfo[channel]\<close> reads the array the constructor allocated. The result is
  \<open>None\<close> when the index lies outside that array, where the C program has no
  defined behaviour.
\<close>

definition touchInfo_at :: "RA8875 \<Rightarrow> 8 word \<Rightarrow> touchInfo_T option" where
  "touchInfo_at s channel =
     (if unat channel < length (touchInfo s) then Some (touchInfo s ! unat channel) else None)"

definition TouchID :: "nat \<Rightarrow> RA8875 \<Rightarrow> 8 word \<Rightarrow> 8 word option" where
  "TouchID GSL1680_TOUCH_POINTS s channel =
     map_option touchID (touchInfo_at s (clamp_channel GSL1680_TOUCH_POINTS s channel))"

definition TouchCode :: "nat \<Rightarrow> RA8875 \<Rightarrow> 8 word \<Rightarrow> TouchCode_t option" where
  "TouchCode GSL1680_TOUCH_POINTS s channel =
     map_option touchCode (touchInfo_at s (clamp_channel GSL1680_TOUCH_POINTS s channel))"

definition TouchCoordinates :: "nat \<Rightarrow> RA8875 \<Rightarrow> 8 word \<Rightarrow> point_t option" where
  "TouchCoordinates GSL1680_TOUCH_POINTS s channel =
     map_option coordinates (touchInfo_at s (clamp_channel GSL1680_TOUCH_POINTS s channel))"

section \<open>The sample filter (\<open>InsertionSort\<close>, \<open>TouchPanelA2DFiltered\<close>)\<close>

text \<open>
  What one poll reads from the controller: whether
  \<open>ReadCommand(INTC2) & RA8875_INT_TP\<close> is non-zero, and the registers \<open>TPYH\<close>,
  \<open>TPXH\<close> and \<open>TPXYL\<close> (the last is read twice in the source and has one value here).
\<close>

record tp_regs =
  tp_pending :: bool
  TPYH :: "8 word"
  TPXH :: "8 word"
  TPXYL :: "8 word"

definition adc_y :: "tp_regs \<Rightarrow> 32 word" where
  "adc_y hw = push_bit 2 (ucast (TPYH hw)) OR drop_bit 2 (ucast (TPXYL hw) AND 0xC)"

definition adc_x :: "tp_regs \<Rightarrow> 32 word" where
  "adc_x hw = push_bit 2 (ucast (TPXH hw)) OR (ucast (TPXYL hw) AND 0x3)"

text \<open>
  The inner loop of \<open>InsertionSort\<close>, started with \<open>j = i\<close>:
  \<open>while (j && (buf[j-1] > temp)) { buf[j] = buf[j-1]; j = j-1; } buf[j] = temp;\<close>
  The comparison is the signed one of \<open>int\<close>.
\<close>

fun InsertionSort_shift :: "32 word list \<Rightarrow> 32 word \<Rightarrow> nat \<Rightarrow> 32 word list" where
  "InsertionSort_shift buf temp 0 = buf[0 := temp]"
| "InsertionSort_shift buf temp (Suc j) =
     (if temp <s buf ! j then InsertionSort_shift (buf[Suc j := buf ! j]) temp j
      else buf[Suc j := temp])"

definition InsertionSort :: "32 word list \<Rightarrow> nat \<Rightarrow> 32 word list" where
  "InsertionSort buf bufsize =
     fold (\<lambda>i b. InsertionSort_shift b (b ! i) i) [1 ..< bufsize] buf"

text \<open>
  The conversion of an \<open>int\<close> to \<open>float\<close> (IEEE binary32, round to nearest, ties
  to even), as the integer it denotes: a value of more than 24 significant bits is
  rounded to 24.
\<close>

fun float_ulp_exp :: "nat \<Rightarrow> nat" where
  "float_ulp_exp a = (if a < 16777216 then 0 else Suc (float_ulp_exp (a div 2)))"

declare float_ulp_exp.simps [simp del]

definition float_of_int32 :: "int \<Rightarrow> int" where
  "float_of_int32 k =
     (let a = nat \<bar>k\<bar>; e = float_ulp_exp a; q = a div 2 ^ e; r = a mod 2 ^ e;
          q' = (if 2 * r > 2 ^ e \<or> (2 * r = 2 ^ e \<and> odd q) then q + 1 else q)
      in sgn k * int (q' * 2 ^ e))"

text \<open>
  \<open>j = 0; for (i = (TPBUFSIZE/4) - 1; i < TPBUFSIZE - TPBUFSIZE/4; i++) j += buf[i];\<close>
  followed by \<open>j * (float)2/TPBUFSIZE\<close> stored in an \<open>int\<close>: the product and the
  quotient by 16 are exact in binary32, and the conversion back truncates towards zero.
\<close>

definition middle_sum :: "32 word list \<Rightarrow> 32 word" where
  "middle_sum buf =
     fold (\<lambda>i j. j + buf ! i) [TPBUFSIZE div 4 - 1 ..< TPBUFSIZE - TPBUFSIZE div 4] 0"

definition middle_average :: "32 word list \<Rightarrow> 32 word" where
  "middle_average buf =
     word_of_int ((float_of_int32 (sint (middle_sum buf)) * 2) sdiv int TPBUFSIZE)"

text \<open>
  \<open>TouchPanelA2DFiltered(&x, &y)\<close>: the argument \<open>xy\<close> is what \<open>*x\<close> and \<open>*y\<close> hold
  before the call, the second component of the result what they hold after it.
  The buffers are indexed by \<open>touchSample\<close>, which the driver keeps below
  \<open>TPBUFSIZE\<close>.
\<close>

definition TouchPanelA2DFiltered ::
  "tp_regs \<Rightarrow> 32 word \<times> 32 word \<Rightarrow> RA8875 \<Rightarrow> TouchCode_t \<times> (32 word \<times> 32 word) \<times> RA8875" where
  "TouchPanelA2DFiltered hw xy s =
     (if tp_pending hw then
        let s1 = s\<lparr> timeSinceTouch := 0,
                    ybuf := (ybuf s)[touchSample s := adc_y hw],
                    xbuf := (xbuf s)[touchSample s := adc_x hw],
                    touchSample := touchSample s + 1 \<rparr>
        in if touchSample s1 = TPBUFSIZE then
             let yb = InsertionSort (ybuf s1) TPBUFSIZE;
                 xb = InsertionSort (xbuf s1) TPBUFSIZE;
                 ay = middle_average yb;
                 ax = middle_average xb;
                 st = (if touchState s1 = touch \<or> touchState s1 = held then held else touch)
             in (st, (ax, ay),
                 s1\<lparr> ybuf := yb, xbuf := xb, lastY := ay, lastX := ax,
                     touchState := st, touchSample := 0 \<rparr>)
           else if touchState s1 = touch \<or> touchState s1 = held then
             (held, (lastX s1, lastY s1), s1\<lparr> touchState := held \<rparr>)
           else (touchState s1, xy, s1)
      else if touchState s = touch \<or> touchState s = held then
        (held, (lastX s, lastY s), s\<lparr> touchState := held \<rparr>)
      else if touchState s = release then
        (release, (lastX s, lastY s), s\<lparr> touchState := no_touch \<rparr>)
      else (touchState s, xy, s))"

section \<open>Applying the calibration (\<open>TouchPanelReadable\<close>)\<close>

text \<open>
  The quotient of two \<open>int\<close>s: C's \<open>/\<close> truncates towards zero, as \<open>sdiv\<close> on
  \<open>int\<close> does. The divisor is non-zero wherever the driver divides; the one
  quotient that does not fit, \<open>INT_MIN / -1\<close>, wraps here.
\<close>

definition sdiv32 :: "32 word \<Rightarrow> 32 word \<Rightarrow> 32 word" where
  "sdiv32 a b = word_of_int (sint a sdiv sint b)"

text \<open>
  The two assignments to \<open>touchInfo[0].coordinates\<close>: the quotients are \<open>int\<close>s,
  stored in the 16-bit fields of a \<open>point_t\<close>.
\<close>

definition getDisplayPoint :: "tpMatrix_t \<Rightarrow> 32 word \<Rightarrow> 32 word \<Rightarrow> point_t" where
  "getDisplayPoint m a2dX a2dY =
     \<lparr> pt_x = ucast (sdiv32 ((An m * a2dX) + (Bn m * a2dY) + Cn m) (Divider m)),
       pt_y = ucast (sdiv32 ((Dn m * a2dX) + (En m * a2dY) + Fn m) (Divider m)) \<rparr>"

text \<open>An assignment to a field of \<open>touchInfo[0]\<close>.\<close>

definition upd_touchInfo0 :: "(touchInfo_T \<Rightarrow> touchInfo_T) \<Rightarrow> RA8875 \<Rightarrow> RA8875" where
  "upd_touchInfo0 f s = s\<lparr> touchInfo := (touchInfo s)[0 := f (touchInfo s ! 0)] \<rparr>"

text \<open>
  \<open>TouchPanelReadable(TouchPoint)\<close>: \<open>TouchPoint\<close> is \<open>None\<close> for a null pointer (the
  default argument) and \<open>Some p\<close> for a pointer to a point holding \<open>p\<close>. The function
  writes \<open>touchInfo[0]\<close>; the array is allocated by the constructor, outside these
  files, and the model follows the code wherever \<open>touchInfo\<close> is not empty.
\<close>

definition TouchPanelReadable ::
  "tp_regs \<Rightarrow> point_t option \<Rightarrow> RA8875 \<Rightarrow> TouchCode_t \<times> point_t option \<times> RA8875" where
  "TouchPanelReadable hw TouchPoint s =
     (let (ts, s1) =
        (if useTouchPanel s = TP_FT5206 then (no_touch, s)
         else if useTouchPanel s = TP_GSL1680 then (no_touch, s)
         else if useTouchPanel s = TP_RES then
           (case TouchPanelA2DFiltered hw (0, 0) (upd_touchInfo0 (\<lambda>t. t\<lparr> touchID := 0 \<rparr>) s) of
              (ts, (a2dX, a2dY), s1) \<Rightarrow>
                let (ts, s2) =
                  (if ts \<noteq> no_touch then
                     let s2 = s1\<lparr> panelTouched := True, numberOfTouchPoints := 1 \<rparr>
                     in if Divider (tpMatrix s2) \<noteq> 0 then
                          (ts, upd_touchInfo0
                                 (\<lambda>t. t\<lparr> coordinates := getDisplayPoint (tpMatrix s2) a2dX a2dY \<rparr>) s2)
                        else (no_cal, s2)
                   else (ts, s1\<lparr> numberOfTouchPoints := 0 \<rparr>))
                in (ts, upd_touchInfo0 (\<lambda>t. t\<lparr> touchCode := ts \<rparr>) s2))
         else (no_touch, s))
      in if panelTouched s1 then
           (case TouchPoint of
              Some _ \<Rightarrow> (touchCode (touchInfo s1 ! 0), Some (coordinates (touchInfo s1 ! 0)),
                         s1\<lparr> panelTouched := False \<rparr>)
            | None \<Rightarrow> (touch, None, s1\<lparr> panelTouched := False \<rparr>))
         else (ts, TouchPoint, s1))"

section \<open>The GIF decoder (GraphicsDisplayGIF.cpp)\<close>

text \<open>
  Where the C program leaves defined behaviour, the model returns a \<open>fault\<close>
  instead of a value. A loop of the source that need not terminate is a partial
  function into \<open>option\<close>, and \<open>None\<close> means that the call does not return.
  Every \<open>malloc\<close> and \<open>realloc\<close> is taken to succeed, so the \<open>not_enough_ram\<close>
  returns of the source have no counterpart here.
\<close>

datatype fault =
    InputOverrun \<comment> \<open>\<open>*input\<close> read past the end of the compressed data\<close>
  | DictRead \<comment> \<open>a dictionary entry read that was never written, or outside the array\<close>
  | DictWrite \<comment> \<open>a dictionary entry written outside the array\<close>
  | OutWrite \<comment> \<open>a byte written outside the output buffer\<close>
  | OutRead \<comment> \<open>a byte of the output buffer read that was never written\<close>
  | ColorRead \<comment> \<open>a colour table read outside the table, or through a null pointer\<close>
  | BadSize \<comment> \<open>a shift or an allocation size that does not fit 32 bits\<close>

type_synonym 'a result = "(fault + 'a) option"

subsection \<open>The dictionary\<close>

record dictionary_entry_t =
  byte :: "8 word"
  prev :: int
  len :: int

text \<open>
  The dictionary is the allocated array: an entry is \<open>None\<close> until it is written.
  \<open>realloc\<close> keeps the entries that fit the new size and adds unwritten ones.
\<close>

type_synonym dictionary_t = "dictionary_entry_t option list"

definition dict_read :: "dictionary_t \<Rightarrow> int \<Rightarrow> dictionary_entry_t option" where
  "dict_read d i = (if 0 \<le> i \<and> i < int (length d) then d ! nat i else None)"

definition realloc_dictionary :: "dictionary_t \<Rightarrow> nat \<Rightarrow> dictionary_t" where
  "realloc_dictionary d n = take n d @ replicate (n - length d) None"

text \<open>
  \<open>for (dictionary_ind = 0; dictionary_ind < (1 << code_length); dictionary_ind++)\<close>
  with its three assignments; \<open>n\<close> is \<open>1 << code_length\<close>.
\<close>

definition dictionary_init :: "dictionary_t \<Rightarrow> nat \<Rightarrow> dictionary_t" where
  "dictionary_init d n =
     fold (\<lambda>i d. d[i := Some \<lparr> byte = word_of_nat i, prev = - 1, len = 1 \<rparr>]) [0 ..< n] d"

text \<open>\<open>while (dictionary[ptr].prev != -1) ptr = dictionary[ptr].prev;\<close>\<close>

partial_function (option) chain_root :: "dictionary_t \<Rightarrow> int \<Rightarrow> int result" where
  "chain_root d ptr =
     (case dict_read d ptr of
        None \<Rightarrow> Some (Inl DictRead)
      | Some e \<Rightarrow> if prev e \<noteq> - 1 then chain_root d (prev e) else Some (Inr ptr))"

declare chain_root.simps [code]

subsection \<open>The decompressor (\<open>uncompress_gif\<close>)\<close>

text \<open>
  The local variables of \<open>uncompress_gif\<close> that change in its loop. The local \<open>prev\<close> is \<open>prev_code\<close> and
  \<open>mask\<close> is \<open>bit_mask\<close>; \<open>input\<close> holds the bytes from the pointer \<open>input\<close> on;
  \<open>out\<close> is the buffer the caller passed and \<open>out_off\<close> how far the pointer \<open>out\<close>
  has advanced in it.
\<close>

record lzw =
  code_length :: nat
  dictionary :: dictionary_t
  dictionary_ind :: nat
  prev_code :: int
  bit_mask :: "32 word"
  input :: "8 word list"
  input_length :: int
  out :: "8 word option list"
  out_off :: int
  reset_code_length :: nat

text \<open>
  \<open>clear_code\<close> and \<open>stop_code\<close> are assigned once, from the code length the
  function is called with, which \<open>reset_code_length\<close> keeps.
\<close>

definition clear_code :: "lzw \<Rightarrow> int" where
  "clear_code s = 2 ^ reset_code_length s"

definition stop_code :: "lzw \<Rightarrow> int" where
  "stop_code s = clear_code s + 1"

text \<open>
  \<open>for (i = 0; i < (code_length + 1); i++)\<close>: \<open>read_code n i code s\<close> reads the
  \<open>n\<close> bits that remain when the loop variable is \<open>i\<close>.
\<close>

fun read_code :: "nat \<Rightarrow> nat \<Rightarrow> int \<Rightarrow> lzw \<Rightarrow> fault + (int \<times> lzw)" where
  "read_code 0 i code s = Inr (code, s)"
| "read_code (Suc n) i code s =
     (case input s of
        [] \<Rightarrow> Inl InputOverrun
      | b # rest \<Rightarrow>
          let bit = (if ucast b AND bit_mask s \<noteq> 0 then 1 else 0 :: int);
              m = push_bit 1 (bit_mask s);
              s' = (if m = 0x100
                    then s\<lparr> bit_mask := 0x01, input := rest, input_length := input_length s - 1 \<rparr>
                    else s\<lparr> bit_mask := m \<rparr>)
          in read_code n (Suc i) (code OR push_bit i bit) s')"

text \<open>
  The block guarded by \<open>(prev > -1) && (code_length < 12)\<close>. The first component of
  the result is \<open>Some r\<close> when the block returns \<open>r\<close> from \<open>uncompress_gif\<close>.
\<close>

definition lzw_extend :: "int \<Rightarrow> lzw \<Rightarrow> (RetCode_t option \<times> lzw) result" where
  "lzw_extend code s =
     (if prev_code s > - 1 \<and> code_length s < 12 then
        if code > int (dictionary_ind s) then Some (Inr (Some not_supported_format, s))
        else
          (case chain_root (dictionary s)
                  (if code = int (dictionary_ind s) then prev_code s else code) of
             None \<Rightarrow> None
           | Some (Inl f) \<Rightarrow> Some (Inl f)
           | Some (Inr ptr) \<Rightarrow>
               (case dict_read (dictionary s) ptr of
                  None \<Rightarrow> Some (Inl DictRead)
                | Some r \<Rightarrow>
                    if dictionary_ind s < length (dictionary s) then
                      (case dict_read (dictionary s) (prev_code s) of
                         None \<Rightarrow> Some (Inl DictRead)
                       | Some p \<Rightarrow>
                           let d = (dictionary s)[dictionary_ind s :=
                                     Some \<lparr> byte = byte r, prev = prev_code s, len = len p + 1 \<rparr>];
                               ind = dictionary_ind s + 1
                           in if ind = 2 ^ (code_length s + 1) \<and> code_length s < 11
                              then Some (Inr (None,
                                     s\<lparr> code_length := code_length s + 1,
                                        dictionary := realloc_dictionary d (2 ^ (code_length s + 1 + 1)),
                                        dictionary_ind := ind \<rparr>))
                              else Some (Inr (None, s\<lparr> dictionary := d, dictionary_ind := ind \<rparr>)))
                    else Some (Inl DictWrite)))
      else Some (Inr (None, s)))"

text \<open>
  \<open>while (code != -1) { ... }\<close>, which copies the entry backwards into \<open>out\<close>.
  The flag of the result is \<open>False\<close> when the loop returns \<open>not_supported_format\<close>
  (an entry whose \<open>prev\<close> is itself).
\<close>

partial_function (option) copy_out ::
  "dictionary_t \<Rightarrow> int \<Rightarrow> 8 word option list \<Rightarrow> int \<Rightarrow> (bool \<times> 8 word option list) result" where
  "copy_out d code ob off =
     (if code \<noteq> - 1 then
        (case dict_read d code of
           None \<Rightarrow> Some (Inl DictRead)
         | Some e \<Rightarrow>
             let pos = off + (len e - 1)
             in if 0 \<le> pos \<and> pos < int (length ob) then
                  let ob' = ob[nat pos := Some (byte e)]
                  in if prev e = code then Some (Inr (False, ob'))
                     else copy_out d (prev e) ob' off
                else Some (Inl OutWrite))
      else Some (Inr (True, ob)))"

declare copy_out.simps [code]

text \<open>
  One turn of \<open>while (input_length)\<close>: \<open>Continue\<close> goes back to the loop test,
  \<open>Finish r\<close> leaves the function with \<open>r\<close> (\<open>break\<close> leaves it with \<open>noerror\<close>).
\<close>

datatype step = Continue lzw | Finish RetCode_t lzw

definition lzw_step :: "lzw \<Rightarrow> step result" where
  "lzw_step s =
     (case read_code (code_length s + 1) 0 0 s of
        Inl f \<Rightarrow> Some (Inl f)
      | Inr (code, s1) \<Rightarrow>
          if code = clear_code s1 then
            Some (Inr (Continue
              (s1\<lparr> code_length := reset_code_length s1,
                   dictionary := dictionary_init
                     (realloc_dictionary (dictionary s1) (2 ^ (reset_code_length s1 + 1)))
                     (2 ^ reset_code_length s1),
                   dictionary_ind := 2 ^ reset_code_length s1 + 1 + 1,
                   prev_code := - 1 \<rparr>)))
          else if code = stop_code s1 then
            (if input_length s1 > 1 then Some (Inr (Finish not_supported_format s1))
             else Some (Inr (Finish noerror s1)))
          else
            (case lzw_extend code s1 of
               None \<Rightarrow> None
             | Some (Inl f) \<Rightarrow> Some (Inl f)
             | Some (Inr (Some r, s2)) \<Rightarrow> Some (Inr (Finish r s2))
             | Some (Inr (None, s2)) \<Rightarrow>
                 (case dict_read (dictionary s2) code of
                    None \<Rightarrow> Some (Inl DictRead)
                  | Some e \<Rightarrow>
                      (case copy_out (dictionary s2) code (out s2) (out_off s2) of
                         None \<Rightarrow> None
                       | Some (Inl f) \<Rightarrow> Some (Inl f)
                       | Some (Inr (False, ob)) \<Rightarrow>
                           Some (Inr (Finish not_supported_format (s2\<lparr> prev_code := code, out := ob \<rparr>)))
                       | Some (Inr (True, ob)) \<Rightarrow>
                           Some (Inr (Continue
                             (s2\<lparr> prev_code := code, out := ob, out_off := out_off s2 + len e \<rparr>)))))))"

partial_function (option) lzw_loop :: "lzw \<Rightarrow> (RetCode_t \<times> lzw) result" where
  "lzw_loop s =
     (if input_length s \<noteq> 0 then
        (case lzw_step s of
           None \<Rightarrow> None
         | Some (Inl f) \<Rightarrow> Some (Inl f)
         | Some (Inr (Finish r s')) \<Rightarrow> Some (Inr (r, s'))
         | Some (Inr (Continue s')) \<Rightarrow> lzw_loop s')
      else Some (Inr (noerror, s)))"

declare lzw_loop.simps [code]

text \<open>
  The state in which \<open>uncompress_gif\<close> enters its loop. The dictionary has
  \<open>1 << (code_length + 1)\<close> entries, of which the first \<open>1 << code_length\<close> are
  written; \<open>dictionary_ind\<close> is two past them.
\<close>

definition lzw_start :: "nat \<Rightarrow> 8 word list \<Rightarrow> int \<Rightarrow> 8 word option list \<Rightarrow> lzw" where
  "lzw_start code_length0 input0 input_length0 out0 =
     \<lparr> code_length = code_length0,
       dictionary = dictionary_init (replicate (2 ^ (code_length0 + 1)) None) (2 ^ code_length0),
       dictionary_ind = 2 ^ code_length0 + 1 + 1,
       prev_code = - 1,
       bit_mask = 0x01,
       input = input0,
       input_length = input_length0,
       out = out0,
       out_off = 0,
       reset_code_length = code_length0 \<rparr>"

text \<open>
  \<open>uncompress_gif(code_length, input, input_length, out)\<close>, returning its code and
  the contents of the buffer \<open>out\<close>. The size of the dictionary in bytes,
  \<open>sizeof(dictionary_entry_t) * (1 << (code_length + 1))\<close> with entries of 12 bytes,
  fits 32 bits up to a code length of 27.
\<close>

definition uncompress_gif ::
  "nat \<Rightarrow> 8 word list \<Rightarrow> int \<Rightarrow> 8 word option list \<Rightarrow> (RetCode_t \<times> 8 word option list) result" where
  "uncompress_gif code_length0 input0 input_length0 out0 =
     (if code_length0 > 27 then Some (Inl BadSize)
      else
        (case lzw_loop (lzw_start code_length0 input0 input_length0 out0) of
           None \<Rightarrow> None
         | Some (Inl f) \<Rightarrow> Some (Inl f)
         | Some (Inr (r, s)) \<Rightarrow> Some (Inr (r, out s))))"

subsection \<open>Reading the file\<close>

text \<open>
  A file handle is the list of the bytes not yet read. \<open>read_filesystem_bytes\<close>
  with a count \<open>n\<close> delivers \<open>take n fh\<close> and leaves \<open>drop n fh\<close>; it returns fewer
  than \<open>n\<close> bytes exactly when fewer are left.
\<close>

text \<open>
  \<open>read_gif_sub_blocks\<close>: the first argument is the data collected so far. The
  result is the return value (the length of the data, or \<open>-1\<close>), the data and the
  rest of the file.
\<close>

fun read_gif_sub_blocks_loop :: "8 word list \<Rightarrow> 8 word list \<Rightarrow> int \<times> 8 word list \<times> 8 word list" where
  "read_gif_sub_blocks_loop data [] = (- 1, data, [])"
| "read_gif_sub_blocks_loop data (block_size # fh) =
     (if block_size = 0 then (int (length data), data, fh)
      else if length fh < unat block_size then (- 1, data @ fh, [])
      else read_gif_sub_blocks_loop (data @ take (unat block_size) fh) (drop (unat block_size) fh))"

definition read_gif_sub_blocks :: "8 word list \<Rightarrow> int \<times> 8 word list \<times> 8 word list" where
  "read_gif_sub_blocks fh = read_gif_sub_blocks_loop [] fh"

type_synonym color_t = "16 word"

definition RGB :: "8 word \<Rightarrow> 8 word \<Rightarrow> 8 word \<Rightarrow> color_t" where
  "RGB r g b =
     ucast ((push_bit 8 (ucast r :: 32 word) AND 0xF800) OR
            (push_bit 3 (ucast g :: 32 word) AND 0x07E0) OR
            drop_bit 3 (ucast b :: 32 word))"

text \<open>
  \<open>readColorTable\<close>: the return value, the entries written and the rest of the file.
\<close>

fun readColorTable :: "nat \<Rightarrow> 8 word list \<Rightarrow> RetCode_t \<times> color_t list \<times> 8 word list" where
  "readColorTable 0 fh = (noerror, [], fh)"
| "readColorTable (Suc colorTableSize) fh =
     (case fh of
        r # g # b # rest \<Rightarrow>
          (case readColorTable colorTableSize rest of
             (ret, colorTable, fh') \<Rightarrow> (ret, RGB r g b # colorTable, fh'))
      | _ \<Rightarrow> (not_supported_format, [], []))"

record gif_image_descriptor_t =
  image_left_position :: "16 word"
  image_top_position :: "16 word"
  image_width :: "16 word"
  image_height :: "16 word"
  image_fields :: "8 word"

record gif_screen_descriptor_t =
  screen_width :: "16 word"
  screen_height :: "16 word"
  screen_fields :: "8 word"
  background_color_index :: "8 word"
  pixel_aspect_ratio :: "8 word"

text \<open>
  The structures are read as raw bytes on a little-endian machine: a 16-bit field
  is its low byte followed by its high byte.
\<close>

definition le16 :: "8 word \<Rightarrow> 8 word \<Rightarrow> 16 word" where
  "le16 lo hi = ucast lo OR push_bit 8 (ucast hi)"

definition screen_descriptor_bytes :: "gif_screen_descriptor_t \<Rightarrow> 8 word list" where
  "screen_descriptor_bytes d =
     [ucast (screen_width d), ucast (drop_bit 8 (screen_width d)),
      ucast (screen_height d), ucast (drop_bit 8 (screen_height d)),
      screen_fields d, background_color_index d, pixel_aspect_ratio d]"

definition screen_descriptor_of :: "8 word list \<Rightarrow> gif_screen_descriptor_t" where
  "screen_descriptor_of bs =
     \<lparr> screen_width = le16 (bs ! 0) (bs ! 1), screen_height = le16 (bs ! 2) (bs ! 3),
       screen_fields = bs ! 4, background_color_index = bs ! 5, pixel_aspect_ratio = bs ! 6 \<rparr>"

definition image_descriptor_of :: "8 word list \<Rightarrow> gif_image_descriptor_t" where
  "image_descriptor_of bs =
     \<lparr> image_left_position = le16 (bs ! 0) (bs ! 1), image_top_position = le16 (bs ! 2) (bs ! 3),
       image_width = le16 (bs ! 4) (bs ! 5), image_height = le16 (bs ! 6) (bs ! 7),
       image_fields = bs ! 8 \<rparr>"

definition gif_image_descriptor_size :: nat where
  "gif_image_descriptor_size = 9"

definition gif_screen_descriptor_size :: nat where
  "gif_screen_descriptor_size = 7"

subsection \<open>The display object\<close>

text \<open>
  The calls \<open>_RenderGIF\<close> makes to the display, which is outside these sources, are
  recorded in the order they are made: \<open>window(x, y, w, h)\<close>,
  \<open>pixelStream(p, count, x, y)\<close> with the pixels \<open>p\<close> points to, and
  \<open>window(restore)\<close>.
\<close>

datatype display_call =
    Window int int int int
  | PixelStream "color_t list" int int int
  | WindowRestore

text \<open>
  The members of \<open>GraphicsDisplay\<close> that the GIF code uses. A colour table pointer
  is \<open>None\<close> when null.
\<close>

record GraphicsDisplay =
  screen_descriptor :: gif_screen_descriptor_t
  screen_descriptor_isvalid :: bool
  global_color_table :: "color_t list option"
  global_color_table_size :: nat
  local_color_table :: "color_t list option"
  local_color_table_size :: nat
  display_calls :: "display_call list"

text \<open>
  \<open>GetGIFHeader\<close>: a short read leaves the bytes it delivered in the first bytes of
  \<open>screen_descriptor\<close>.
\<close>

definition GetGIFHeader :: "8 word list \<Rightarrow> GraphicsDisplay \<Rightarrow> RetCode_t \<times> 8 word list \<times> GraphicsDisplay" where
  "GetGIFHeader fh g =
     (let bs = take gif_screen_descriptor_size fh;
          g1 = g\<lparr> screen_descriptor :=
                    screen_descriptor_of (bs @ drop (length bs) (screen_descriptor_bytes (screen_descriptor g))) \<rparr>
      in if length bs < gif_screen_descriptor_size then (not_supported_format, [], g1)
         else (noerror, drop gif_screen_descriptor_size fh, g1\<lparr> screen_descriptor_isvalid := True \<rparr>))"

text \<open>
  \<open>readGIFImageDescriptor\<close>: the return value, the descriptor read, the rest of the
  file and the display object. On a short read the descriptor is not used.
\<close>

definition readGIFImageDescriptor ::
  "8 word list \<Rightarrow> GraphicsDisplay \<Rightarrow> RetCode_t \<times> gif_image_descriptor_t \<times> 8 word list \<times> GraphicsDisplay" where
  "readGIFImageDescriptor fh g =
     (let imageDescriptor = image_descriptor_of (take gif_image_descriptor_size fh)
      in if length fh < gif_image_descriptor_size then (not_supported_format, imageDescriptor, [], g)
         else
           let fh1 = drop gif_image_descriptor_size fh
           in if image_fields imageDescriptor AND 0x80 \<noteq> 0 then
                let n = 2 ^ (unat (image_fields imageDescriptor AND 0x07) + 1)
                in (case readColorTable n fh1 of
                      (ret, colorTable, fh2) \<Rightarrow>
                        if ret \<noteq> noerror
                        then (not_supported_format, imageDescriptor, fh2,
                              g\<lparr> local_color_table_size := n, local_color_table := None \<rparr>)
                        else (noerror, imageDescriptor, fh2,
                              g\<lparr> local_color_table_size := n, local_color_table := Some colorTable \<rparr>))
              else (noerror, imageDescriptor, fh1, g))"

text \<open>
  \<open>process_gif_image_descriptor\<close>: the return value, what
  \<open>*uncompress_gifed_data\<close> points to afterwards (\<open>None\<close> for null), the rest of the
  file and the display object. The buffer of \<open>width * height\<close> bytes is fresh: none
  of its bytes is written.
\<close>

definition process_gif_image_descriptor ::
  "8 word list \<Rightarrow> 8 word option list option \<Rightarrow> int \<Rightarrow> int \<Rightarrow> GraphicsDisplay
     \<Rightarrow> (RetCode_t \<times> 8 word option list option \<times> 8 word list \<times> GraphicsDisplay) result" where
  "process_gif_image_descriptor fh uncompress_gifed_data w h g =
     (let g1 = g\<lparr> local_color_table_size := 0 \<rparr>
      in case fh of
           [] \<Rightarrow> Some (Inr (not_supported_format, uncompress_gifed_data, [], g1))
         | lzw_code_size # fh1 \<Rightarrow>
             (case read_gif_sub_blocks fh1 of
                (compressed_data_length, compressed_data, fh2) \<Rightarrow>
                  if compressed_data_length > 0 then
                    if w * h \<ge> 2 ^ 31 then Some (Inl BadSize)
                    else
                      (case uncompress_gif (unat lzw_code_size) compressed_data compressed_data_length
                              (replicate (nat (w * h)) None) of
                         None \<Rightarrow> None
                       | Some (Inl f) \<Rightarrow> Some (Inl f)
                       | Some (Inr (res, ob)) \<Rightarrow> Some (Inr (res, Some ob, fh2, g1)))
                  else Some (Inr (not_supported_format, uncompress_gifed_data, fh2, g1))))"

text \<open>
  \<open>process_gif_extension\<close>: the return value (0 or 1) and the rest of the file. The
  value \<open>read_gif_sub_blocks\<close> returns is not looked at.
\<close>

definition extension_size :: nat where "extension_size = 2"
definition graphic_control_extension_size :: nat where "graphic_control_extension_size = 4"
definition application_extension_size :: nat where "application_extension_size = 11"
definition plaintext_extension_size :: nat where "plaintext_extension_size = 12"

definition GRAPHIC_CONTROL :: "8 word" where "GRAPHIC_CONTROL = 0xF9"
definition APPLICATION_EXTENSION :: "8 word" where "APPLICATION_EXTENSION = 0xFF"
definition COMMENT_EXTENSION :: "8 word" where "COMMENT_EXTENSION = 0xFE"
definition PLAINTEXT_EXTENSION :: "8 word" where "PLAINTEXT_EXTENSION = 0x01"

definition EXTENSION_INTRODUCER :: "8 word" where "EXTENSION_INTRODUCER = 0x21"
definition IMAGE_DESCRIPTOR :: "8 word" where "IMAGE_DESCRIPTOR = 0x2C"
definition TRAILER :: "8 word" where "TRAILER = 0x3B"

text \<open>The fixed body of \<open>n\<close> bytes, then the sub-blocks.\<close>

definition skip_extension_body :: "nat \<Rightarrow> 8 word list \<Rightarrow> int \<times> 8 word list" where
  "skip_extension_body n fh =
     (if length fh < n then (0, [])
      else (1, snd (snd (read_gif_sub_blocks (drop n fh)))))"

definition process_gif_extension :: "8 word list \<Rightarrow> int \<times> 8 word list" where
  "process_gif_extension fh =
     (if length fh < extension_size then (0, [])
      else
        let extension_code = fh ! 0;
            fh1 = drop extension_size fh
        in if extension_code = GRAPHIC_CONTROL then skip_extension_body graphic_control_extension_size fh1
           else if extension_code = APPLICATION_EXTENSION then skip_extension_body application_extension_size fh1
           else if extension_code = COMMENT_EXTENSION then skip_extension_body 0 fh1
           else if extension_code = PLAINTEXT_EXTENSION then skip_extension_body plaintext_extension_size fh1
           else (0, fh1))"

text \<open>
  The loop that fills \<open>cbmp\<close>: \<open>cbmp[i] = active_color_table[uncompress_gifed_data[i]]\<close>
  for the bytes of the image.
\<close>

fun color_lookup :: "color_t list option \<Rightarrow> 8 word option list \<Rightarrow> fault + color_t list" where
  "color_lookup active_color_table [] = Inr []"
| "color_lookup active_color_table (b # bs) =
     (case b of
        None \<Rightarrow> Inl OutRead
      | Some cIndex \<Rightarrow>
          (case active_color_table of
             None \<Rightarrow> Inl ColorRead
           | Some t \<Rightarrow>
               if unat cIndex < length t then
                 (case color_lookup active_color_table bs of
                    Inl f \<Rightarrow> Inl f
                  | Inr cbmp \<Rightarrow> Inr (t ! unat cIndex # cbmp))
               else Inl ColorRead))"

text \<open>
  The body of \<open>if (uncompress_gifed_data) { ... }\<close>: the fragment is looked up in
  the active colour table and written to the display.
\<close>

definition render_fragment ::
  "loc_t \<Rightarrow> loc_t \<Rightarrow> gif_image_descriptor_t \<Rightarrow> 8 word option list \<Rightarrow> GraphicsDisplay \<Rightarrow> fault + GraphicsDisplay" where
  "render_fragment ScreenX ScreenY d uncompress_gifed_data g =
     (let active_color_table =
            (case local_color_table g of Some t \<Rightarrow> Some t | None \<Rightarrow> global_color_table g);
          n = unat (image_width d) * unat (image_height d)
      in if length uncompress_gifed_data < n then Inl OutRead
         else
           (case color_lookup active_color_table (take n uncompress_gifed_data) of
              Inl f \<Rightarrow> Inl f
            | Inr cbmp \<Rightarrow>
                Inr (g\<lparr> display_calls := display_calls g @
                       [Window (sint ScreenX + uint (image_left_position d))
                               (sint ScreenY + uint (image_top_position d))
                               (uint (image_width d)) (uint (image_height d)),
                        PixelStream cbmp
                               (uint (screen_width (screen_descriptor g)) * uint (screen_height (screen_descriptor g)))
                               (sint ScreenX + uint (image_left_position d))
                               (sint ScreenY + uint (image_top_position d)),
                        WindowRestore] \<rparr>)))"

text \<open>
  The loop \<open>while (block_type != TRAILER)\<close> of \<open>_RenderGIF\<close>, entered at its test
  with a block type other than the trailer. The result is the return value of
  \<open>_RenderGIF\<close>, the rest of the file and the display object.
\<close>

partial_function (option) gif_blocks ::
  "loc_t \<Rightarrow> loc_t \<Rightarrow> 8 word option list option \<Rightarrow> 8 word list \<Rightarrow> GraphicsDisplay
     \<Rightarrow> (RetCode_t \<times> 8 word list \<times> GraphicsDisplay) result" where
  "gif_blocks ScreenX ScreenY uncompress_gifed_data fh g =
     (case fh of
        [] \<Rightarrow> Some (Inr (not_supported_format, [], g))
      | block_type # fh1 \<Rightarrow>
          if block_type = IMAGE_DESCRIPTOR then
            (case readGIFImageDescriptor fh1 g of
               (ret, gif_image_descriptor, fh2, g1) \<Rightarrow>
                 if ret \<noteq> noerror then Some (Inr (not_supported_format, fh2, g1))
                 else
                   (case process_gif_image_descriptor fh2 uncompress_gifed_data
                           (uint (image_width gif_image_descriptor))
                           (uint (image_height gif_image_descriptor)) g1 of
                      None \<Rightarrow> None
                    | Some (Inl f) \<Rightarrow> Some (Inl f)
                    | Some (Inr (res, data, fh3, g2)) \<Rightarrow>
                        if res = noerror then
                          (case data of
                             None \<Rightarrow> gif_blocks ScreenX ScreenY data fh3 (g2\<lparr> local_color_table := None \<rparr>)
                           | Some ob \<Rightarrow>
                               (case render_fragment ScreenX ScreenY gif_image_descriptor ob g2 of
                                  Inl f \<Rightarrow> Some (Inl f)
                                | Inr g3 \<Rightarrow>
                                    gif_blocks ScreenX ScreenY data fh3 (g3\<lparr> local_color_table := None \<rparr>)))
                        else Some (Inr (not_supported_format, fh3, g2))))
          else if block_type = EXTENSION_INTRODUCER then
            (case process_gif_extension fh1 of
               (ok, fh2) \<Rightarrow>
                 if ok = 0 then Some (Inr (not_supported_format, fh2, g))
                 else gif_blocks ScreenX ScreenY uncompress_gifed_data fh2 g)
          else if block_type = TRAILER then Some (Inr (noerror, fh1, g))
          else Some (Inr (not_supported_format, fh1, g)))"

declare gif_blocks.simps [code]

text \<open>
  \<open>_RenderGIF(ScreenX, ScreenY, fh)\<close>, called with the file positioned after the
  signature.
\<close>

definition RenderGIF ::
  "loc_t \<Rightarrow> loc_t \<Rightarrow> 8 word list \<Rightarrow> GraphicsDisplay \<Rightarrow> (RetCode_t \<times> 8 word list \<times> GraphicsDisplay) result" where
  "RenderGIF ScreenX ScreenY fh g =
     (let g0 = g\<lparr> global_color_table_size := 0, local_color_table_size := 0 \<rparr>
      in case GetGIFHeader fh g0 of
           (ret, fh1, g1) \<Rightarrow>
             if ret \<noteq> noerror then Some (Inr (not_supported_format, fh1, g1))
             else if screen_fields (screen_descriptor g1) AND 0x80 \<noteq> 0 then
               let n = 2 ^ (unat (screen_fields (screen_descriptor g1) AND 0x07) + 1)
               in (case readColorTable n fh1 of
                     (ret, colorTable, fh2) \<Rightarrow>
                       let g2 = g1\<lparr> global_color_table_size := n, global_color_table := Some colorTable \<rparr>
                       in if ret \<noteq> noerror then Some (Inr (not_supported_format, fh2, g2))
                          else gif_blocks ScreenX ScreenY None fh2 g2)
             else gif_blocks ScreenX ScreenY None fh1 g1)"

section \<open>Example states\<close>

text \<open>
  The resistive driver right after \<open>TouchPanelInit\<close> found no stored calibration:
  one touch channel, no samples, state \<open>no_cal\<close>, a zero matrix.
\<close>

definition uncalibrated :: RA8875 where
  "uncalibrated =
     \<lparr> useTouchPanel = TP_RES, touchState = no_cal,
       touchInfo = [\<lparr> touchID = 0, touchCode = no_touch, coordinates = \<lparr> pt_x = 0, pt_y = 0 \<rparr> \<rparr>],
       panelTouched = False, numberOfTouchPoints = 0, touchSample = 0, timeSinceTouch = 0,
       tpMatrix = \<lparr> An = 0, Bn = 0, Cn = 0, Dn = 0, En = 0, Fn = 0, Divider = 0 \<rparr>,
       xbuf = replicate 16 0, ybuf = replicate 16 0, lastX = 0, lastY = 0 \<rparr>"

text \<open>The same driver with the identity matrix installed and a touch being held.\<close>

definition calibrated :: RA8875 where
  "calibrated =
     uncalibrated\<lparr> touchState := held,
       tpMatrix := \<lparr> An = 1, Bn = 0, Cn = 0, Dn = 0, En = 1, Fn = 0, Divider = 1 \<rparr> \<rparr>"

definition pt :: "int \<Rightarrow> int \<Rightarrow> point_t" where
  "pt a b = \<lparr> pt_x = word_of_int a, pt_y = word_of_int b \<rparr>"

definition quiet :: tp_regs where
  "quiet = \<lparr> tp_pending = False, TPYH = 0, TPXH = 0, TPXYL = 0 \<rparr>"

text \<open>A calibrated driver holding a touch whose last filtered sample was (300, 200).\<close>

definition touched :: RA8875 where
  "touched = calibrated\<lparr> lastX := 300, lastY := 200 \<rparr>"

text \<open>The same driver after a calibration attempt on collinear points zeroed the divider.\<close>

definition decalibrated :: RA8875 where
  "decalibrated = touched\<lparr> tpMatrix := (tpMatrix touched)\<lparr> Divider := 0 \<rparr> \<rparr>"

text \<open>A poll that finds a sample pending, with both axes reading 800.\<close>

definition sample800 :: tp_regs where
  "sample800 = \<lparr> tp_pending = True, TPYH = 200, TPXH = 200, TPXYL = 0 \<rparr>"

text \<open>Successive calls of \<open>TouchPanelA2DFiltered\<close>, one per poll, each on the outputs and the state
  the previous one left.\<close>

fun poll_filter :: "tp_regs list \<Rightarrow> TouchCode_t \<times> (32 word \<times> 32 word) \<times> RA8875 \<Rightarrow> TouchCode_t \<times> (32 word \<times> 32 word) \<times> RA8875" where
  "poll_filter [] c = c"
| "poll_filter (hw # hws) (r, xy, s) = poll_filter hws (TouchPanelA2DFiltered hw xy s)"

text \<open>A display object on which nothing has been rendered.\<close>

definition blank_display :: GraphicsDisplay where
  "blank_display =
     \<lparr> screen_descriptor = \<lparr> screen_width = 0, screen_height = 0, screen_fields = 0,
                               background_color_index = 0, pixel_aspect_ratio = 0 \<rparr>,
       screen_descriptor_isvalid = False,
       global_color_table = None, global_color_table_size = 0,
       local_color_table = None, local_color_table_size = 0,
       display_calls = [] \<rparr>"

text \<open>
  A GIF file after its signature: a 2 x 2 screen with a global table of two colours
  (red, blue), a graphic control extension, and one image of the pixels 0 1 1 0
  with LZW code size 2.
\<close>

definition tiny_gif :: "8 word list" where
  "tiny_gif = [0x02, 0x00, 0x02, 0x00, 0x80, 0x00, 0x00,
               0xFF, 0x00, 0x00, 0x00, 0x00, 0xFF,
               0x21, 0xF9, 0x04, 0x00, 0x00, 0x00, 0x00, 0x00,
               0x2C, 0x00, 0x00, 0x00, 0x00, 0x02, 0x00, 0x02, 0x00, 0x00,
               0x02, 0x03, 0x44, 0x02, 0x05, 0x00,
               0x3B]"

section \<open>Ranges of the solver and the invariant of the filter\<close>

text \<open>
  The note above the solver in the source limits it to digitizers of at most 10 bits
  (1024 values). Display coordinates are taken up to a magnitude of 2048, which
  covers the panels of the controller (at most 800 x 480 pixels).
\<close>

definition raw_10bit :: "point_t \<Rightarrow> bool" where
  "raw_10bit p = (0 \<le> sint (pt_x p) \<and> sint (pt_x p) \<le> 1023 \<and>
                  0 \<le> sint (pt_y p) \<and> sint (pt_y p) \<le> 1023)"

definition display_12bit :: "point_t \<Rightarrow> bool" where
  "display_12bit d = (\<bar>sint (pt_x d)\<bar> \<le> 2048 \<and> \<bar>sint (pt_y d)\<bar> \<le> 2048)"

text \<open>The sample counter and the two sample buffers of the filter fit \<open>TPBUFSIZE\<close>.\<close>

definition filter_ok :: "RA8875 \<Rightarrow> bool" where
  "filter_ok s = (touchSample s < TPBUFSIZE \<and> length (xbuf s) = TPBUFSIZE \<and>
                  length (ybuf s) = TPBUFSIZE)"

section \<open>The determinant of the raw points\<close>

text \<open>
  Twice the signed area of the triangle of the three raw points, over the integers:
  it is zero exactly when the points are collinear (or coincide).
\<close>

definition raw_det :: "point_t \<times> point_t \<times> point_t \<Rightarrow> int" where
  "raw_det screenPtr = (case screenPtr of (s0, s1, s2) \<Rightarrow>
     (sint (pt_x s0) - sint (pt_x s2)) * (sint (pt_y s1) - sint (pt_y s2)) -
     (sint (pt_x s1) - sint (pt_x s2)) * (sint (pt_y s0) - sint (pt_y s2)))"

lemma mul_le_max: "0 \<le> x \<Longrightarrow> x \<le> X \<Longrightarrow> x * p \<le> X * max p (0::int)"
proof (cases "0 \<le> p")
  case True
  assume "0 \<le> x" "x \<le> X"
  then have "x * p \<le> X * p" using True by (simp add: mult_right_mono)
  then show ?thesis using True by simp
next
  case False
  assume h: "0 \<le> x" "x \<le> X"
  then have "x * p \<le> 0" using False by (simp add: mult_nonneg_nonpos)
  then show ?thesis using False h by (simp add: max_def)
qed

lemma det_upper:
  fixes x0 x1 x2 y0 y1 y2 :: int
  assumes "0 \<le> x0" "x0 \<le> X" "0 \<le> x1" "x1 \<le> X" "0 \<le> x2" "x2 \<le> X"
      and "0 \<le> y0" "y0 \<le> X" "0 \<le> y1" "y1 \<le> X" "0 \<le> y2" "y2 \<le> X"
  shows "(x0 - x2) * (y1 - y2) - (x1 - x2) * (y0 - y2) \<le> X * X"
proof -
  have e: "(x0 - x2) * (y1 - y2) - (x1 - x2) * (y0 - y2)
        = x0 * (y1 - y2) + x1 * (y2 - y0) + x2 * (y0 - y1)"
    by (simp add: algebra_simps)
  have a: "x0 * (y1 - y2) \<le> X * max (y1 - y2) 0" using assms by (intro mul_le_max) auto
  have b: "x1 * (y2 - y0) \<le> X * max (y2 - y0) 0" using assms by (intro mul_le_max) auto
  have c: "x2 * (y0 - y1) \<le> X * max (y0 - y1) 0" using assms by (intro mul_le_max) auto
  have s: "max (y1 - y2) 0 + max (y2 - y0) 0 + max (y0 - y1) 0 \<le> X"
    using assms by (auto simp: max_def)
  have X0: "0 \<le> X" using assms by linarith
  have "x0 * (y1 - y2) + x1 * (y2 - y0) + x2 * (y0 - y1)
      \<le> X * (max (y1 - y2) 0 + max (y2 - y0) 0 + max (y0 - y1) 0)"
    using a b c by (simp add: distrib_left)
  also have "\<dots> \<le> X * X" using s X0 by (rule mult_left_mono)
  finally show ?thesis using e by simp
qed

lemma det_abs:
  fixes x0 x1 x2 y0 y1 y2 :: int
  assumes "0 \<le> x0" "x0 \<le> X" "0 \<le> x1" "x1 \<le> X" "0 \<le> x2" "x2 \<le> X"
      and "0 \<le> y0" "y0 \<le> X" "0 \<le> y1" "y1 \<le> X" "0 \<le> y2" "y2 \<le> X"
  shows "\<bar>(x0 - x2) * (y1 - y2) - (x1 - x2) * (y0 - y2)\<bar> \<le> X * X"
proof -
  have u: "(x0 - x2) * (y1 - y2) - (x1 - x2) * (y0 - y2) \<le> X * X"
    using assms by (rule det_upper)
  have l: "(x1 - x2) * (y0 - y2) - (x0 - x2) * (y1 - y2) \<le> X * X"
    using assms by (intro det_upper) auto
  show ?thesis using u l by linarith
qed

lemma loc_range: "- 32768 \<le> sint (v :: loc_t) \<and> sint v \<le> 32767"
  using sint_ge [of v] sint_lt [of v] by simp

lemma raw_det_bound: "\<bar>raw_det (s0, s1, s2)\<bar> \<le> 65535 * 65535"
proof -
  define x0 x1 x2 y0 y1 y2 where d:
    "x0 = sint (pt_x s0) + 32768" "x1 = sint (pt_x s1) + 32768" "x2 = sint (pt_x s2) + 32768"
    "y0 = sint (pt_y s0) + 32768" "y1 = sint (pt_y s1) + 32768" "y2 = sint (pt_y s2) + 32768"
  have r: "0 \<le> x0" "x0 \<le> 65535" "0 \<le> x1" "x1 \<le> 65535" "0 \<le> x2" "x2 \<le> 65535"
          "0 \<le> y0" "y0 \<le> 65535" "0 \<le> y1" "y1 \<le> 65535" "0 \<le> y2" "y2 \<le> 65535"
    using loc_range [of "pt_x s0"] loc_range [of "pt_x s1"] loc_range [of "pt_x s2"]
          loc_range [of "pt_y s0"] loc_range [of "pt_y s1"] loc_range [of "pt_y s2"]
    by (simp_all add: d)
  have "raw_det (s0, s1, s2) = (x0 - x2) * (y1 - y2) - (x1 - x2) * (y0 - y2)"
    by (simp add: raw_det_def d)
  then show ?thesis using det_abs [OF r] by simp
qed

lemma word32_zero_iff: "\<bar>k\<bar> < 4294967296 \<Longrightarrow> (word_of_int k = (0 :: 32 word)) = (k = 0)"
proof
  assume b: "\<bar>k\<bar> < 4294967296" and "word_of_int k = (0 :: 32 word)"
  then have "(2::int) ^ 32 dvd k" by (simp add: word_of_int_eq_0_iff)
  then obtain q where q: "k = 4294967296 * q" by (auto simp: dvd_def)
  with b have "q = 0" by (cases "q = 0") (auto simp: abs_mult)
  with q show "k = 0" by simp
qed simp

lemma Divider_zero_iff:
  "(word_of_int (raw_det screenPtr) = (0 :: 32 word)) = (raw_det screenPtr = 0)"
proof -
  obtain s0 s1 s2 where "screenPtr = (s0, s1, s2)" by (cases screenPtr) auto
  then show ?thesis using raw_det_bound [of s0 s1 s2] by (intro word32_zero_iff) simp
qed

lemma computed_Divider:
  "((int_of_loc (pt_x s0) - int_of_loc (pt_x s2)) * (int_of_loc (pt_y s1) - int_of_loc (pt_y s2))) -
   ((int_of_loc (pt_x s1) - int_of_loc (pt_x s2)) * (int_of_loc (pt_y s0) - int_of_loc (pt_y s2)))
     = word_of_int (raw_det (s0, s1, s2))"
  by (simp add: raw_det_def int_of_loc_def)

lemma calibration_collinear:
  assumes "raw_det screenPtr = 0"
  shows "TouchPanelComputeCalibration displayPtr screenPtr matrixPtr s =
           (bad_parameter, matrixPtr, s\<lparr> tpMatrix := (tpMatrix s)\<lparr> Divider := 0 \<rparr> \<rparr>)"
proof -
  obtain d0 d1 d2 s0 s1 s2 where p: "displayPtr = (d0, d1, d2)" "screenPtr = (s0, s1, s2)"
    by (cases displayPtr; cases screenPtr) auto
  show ?thesis
    unfolding p TouchPanelComputeCalibration_def Let_def prod.case computed_Divider
    using assms by (simp add: p)
qed

lemma calibration_Divider:
  "Divider (tpMatrix (snd (snd (TouchPanelComputeCalibration displayPtr screenPtr matrixPtr s))))
     = word_of_int (raw_det screenPtr)"
proof -
  obtain d0 d1 d2 s0 s1 s2 where p: "displayPtr = (d0, d1, d2)" "screenPtr = (s0, s1, s2)"
    by (cases displayPtr; cases screenPtr) auto
  show ?thesis
    unfolding p TouchPanelComputeCalibration_def Let_def prod.case computed_Divider
    by simp
qed

lemma calibration_result:
  "fst (TouchPanelComputeCalibration displayPtr screenPtr matrixPtr s) =
     (if raw_det screenPtr = 0 then bad_parameter else noerror)"
proof -
  obtain d0 d1 d2 s0 s1 s2 where p: "displayPtr = (d0, d1, d2)" "screenPtr = (s0, s1, s2)"
    by (cases displayPtr; cases screenPtr) auto
  show ?thesis
    unfolding p TouchPanelComputeCalibration_def Let_def prod.case computed_Divider
    using Divider_zero_iff [of "(s0, s1, s2)"] by simp
qed

lemma sint32_of_int: "- 2147483648 \<le> k \<Longrightarrow> k < 2147483648 \<Longrightarrow> sint (word_of_int k :: 32 word) = k"
  by (simp add: sint_sbintrunc' signed_take_bit_int_eq_self)

lemma sdiv_mult_self:
  assumes "b \<noteq> 0"
  shows "(a * b) sdiv b = (a :: int)"
proof -
  have 1: "\<bar>a * b\<bar> div \<bar>b\<bar> = \<bar>a\<bar>" using assms by (simp add: abs_mult)
  have "sgn (a * b) * sgn b = sgn a * (sgn b * sgn b)" by (simp add: sgn_mult)
  also have "\<dots> = sgn a" using assms by (simp add: sgn_mult_self_eq)
  finally have 2: "sgn (a * b) * sgn b = sgn a" .
  show ?thesis unfolding signed_divide_int_def 1 2 by (simp add: sgn_mult_abs)
qed

lemma sdiv32_exact:
  assumes "\<bar>a * b\<bar> < 2147483648" "\<bar>b\<bar> < 2147483648" "b \<noteq> 0"
  shows "sdiv32 (word_of_int a * word_of_int b) (word_of_int b) = word_of_int a"
proof -
  have 1: "sint (word_of_int (a * b) :: 32 word) = a * b"
    using assms by (intro sint32_of_int) auto
  have 2: "sint (word_of_int b :: 32 word) = b"
    using assms by (intro sint32_of_int) auto
  have 3: "word_of_int a * word_of_int b = (word_of_int (a * b) :: 32 word)" by simp
  show ?thesis unfolding 3 sdiv32_def 1 2 using assms(3) by (simp add: sdiv_mult_self)
qed

lemma narrow_loc: "(ucast (scast v :: 32 word) :: 16 word) = v"
  by (rule bit_word_eqI) (auto simp: bit_simps)

lemma raw_det_10bit:
  assumes "raw_10bit s0" "raw_10bit s1" "raw_10bit s2"
  shows "\<bar>raw_det (s0, s1, s2)\<bar> \<le> 1046529"
proof -
  have "\<bar>(sint (pt_x s0) - sint (pt_x s2)) * (sint (pt_y s1) - sint (pt_y s2)) -
        (sint (pt_x s1) - sint (pt_x s2)) * (sint (pt_y s0) - sint (pt_y s2))\<bar> \<le> 1023 * 1023"
    using assms by (intro det_abs) (simp_all add: raw_10bit_def)
  then show ?thesis by (simp add: raw_det_def)
qed

text \<open>
  The numerators of the solver reproduce each display coordinate times the divider
  (Cramer's rule). The identity holds in any commutative ring, so also for 32-bit
  words that wrap around.
\<close>

lemma cramer0:
  fixes xs0 :: "'a :: comm_ring"
  shows "(((xd0 - xd2) * (ys1 - ys2)) - ((xd1 - xd2) * (ys0 - ys2))) * xs0 +
         (((xs0 - xs2) * (xd1 - xd2)) - ((xd0 - xd2) * (xs1 - xs2))) * ys0 +
         ((xs2 * xd1 - xs1 * xd2) * ys0 + (xs0 * xd2 - xs2 * xd0) * ys1 + (xs1 * xd0 - xs0 * xd1) * ys2)
       = xd0 * (((xs0 - xs2) * (ys1 - ys2)) - ((xs1 - xs2) * (ys0 - ys2)))"
  by (simp add: algebra_simps)

lemma cramer1:
  fixes xs0 :: "'a :: comm_ring"
  shows "(((xd0 - xd2) * (ys1 - ys2)) - ((xd1 - xd2) * (ys0 - ys2))) * xs1 +
         (((xs0 - xs2) * (xd1 - xd2)) - ((xd0 - xd2) * (xs1 - xs2))) * ys1 +
         ((xs2 * xd1 - xs1 * xd2) * ys0 + (xs0 * xd2 - xs2 * xd0) * ys1 + (xs1 * xd0 - xs0 * xd1) * ys2)
       = xd1 * (((xs0 - xs2) * (ys1 - ys2)) - ((xs1 - xs2) * (ys0 - ys2)))"
  by (simp add: algebra_simps)

lemma cramer2:
  fixes xs0 :: "'a :: comm_ring"
  shows "(((xd0 - xd2) * (ys1 - ys2)) - ((xd1 - xd2) * (ys0 - ys2))) * xs2 +
         (((xs0 - xs2) * (xd1 - xd2)) - ((xd0 - xd2) * (xs1 - xs2))) * ys2 +
         ((xs2 * xd1 - xs1 * xd2) * ys0 + (xs0 * xd2 - xs2 * xd0) * ys1 + (xs1 * xd0 - xs0 * xd1) * ys2)
       = xd2 * (((xs0 - xs2) * (ys1 - ys2)) - ((xs1 - xs2) * (ys0 - ys2)))"
  by (simp add: algebra_simps)

lemma quotient_exact:
  assumes "\<bar>sint d\<bar> \<le> 2048" "\<bar>k\<bar> \<le> 1046529" "k \<noteq> 0"
  shows "(ucast (sdiv32 (int_of_loc d * word_of_int k) (word_of_int k)) :: 16 word) = d"
proof -
  have "\<bar>sint d * k\<bar> \<le> 2048 * 1046529"
    unfolding abs_mult using assms by (intro mult_mono) auto
  then have q: "sdiv32 (word_of_int (sint d) * word_of_int k) (word_of_int k) = word_of_int (sint d)"
    using assms by (intro sdiv32_exact) auto
  have e: "int_of_loc d = word_of_int (sint d)"
    unfolding int_of_loc_def by (rule scast_eq)
  have n: "(ucast (word_of_int (sint d) :: 32 word) :: 16 word) = d"
    using narrow_loc [of d] unfolding scast_eq .
  show ?thesis unfolding e q by (rule n)
qed

lemma calibration_solved:
  assumes "raw_det (s0, s1, s2) \<noteq> 0"
  shows "\<exists>m. TouchPanelComputeCalibration (d0, d1, d2) (s0, s1, s2) mp s =
            (noerror, map_option (\<lambda>_. m) mp, s\<lparr> tpMatrix := m, touchState := no_touch \<rparr>) \<and>
          Divider m = word_of_int (raw_det (s0, s1, s2)) \<and>
          An m * int_of_loc (pt_x s0) + Bn m * int_of_loc (pt_y s0) + Cn m = int_of_loc (pt_x d0) * Divider m \<and>
          Dn m * int_of_loc (pt_x s0) + En m * int_of_loc (pt_y s0) + Fn m = int_of_loc (pt_y d0) * Divider m \<and>
          An m * int_of_loc (pt_x s1) + Bn m * int_of_loc (pt_y s1) + Cn m = int_of_loc (pt_x d1) * Divider m \<and>
          Dn m * int_of_loc (pt_x s1) + En m * int_of_loc (pt_y s1) + Fn m = int_of_loc (pt_y d1) * Divider m \<and>
          An m * int_of_loc (pt_x s2) + Bn m * int_of_loc (pt_y s2) + Cn m = int_of_loc (pt_x d2) * Divider m \<and>
          Dn m * int_of_loc (pt_x s2) + En m * int_of_loc (pt_y s2) + Fn m = int_of_loc (pt_y d2) * Divider m"
proof -
  define m where "m = tpMatrix (snd (snd (TouchPanelComputeCalibration (d0, d1, d2) (s0, s1, s2) mp s)))"
  have nz: "word_of_int (raw_det (s0, s1, s2)) \<noteq> (0 :: 32 word)"
    using assms Divider_zero_iff [of "(s0, s1, s2)"] by simp
  note ev = TouchPanelComputeCalibration_def Let_def computed_Divider nz
  have r: "TouchPanelComputeCalibration (d0, d1, d2) (s0, s1, s2) mp s =
            (noerror, map_option (\<lambda>_. m) mp, s\<lparr> tpMatrix := m, touchState := no_touch \<rparr>)"
    unfolding m_def by (cases mp) (simp_all add: ev del: right_minus_eq)
  have D: "Divider m = word_of_int (raw_det (s0, s1, s2))"
    unfolding m_def by (simp add: ev del: right_minus_eq)
  have A: "An m = ((int_of_loc (pt_x d0) - int_of_loc (pt_x d2)) * (int_of_loc (pt_y s1) - int_of_loc (pt_y s2))) -
                  ((int_of_loc (pt_x d1) - int_of_loc (pt_x d2)) * (int_of_loc (pt_y s0) - int_of_loc (pt_y s2)))"
    unfolding m_def by (simp add: ev del: right_minus_eq)
  have B: "Bn m = ((int_of_loc (pt_x s0) - int_of_loc (pt_x s2)) * (int_of_loc (pt_x d1) - int_of_loc (pt_x d2))) -
                  ((int_of_loc (pt_x d0) - int_of_loc (pt_x d2)) * (int_of_loc (pt_x s1) - int_of_loc (pt_x s2)))"
    unfolding m_def by (simp add: ev del: right_minus_eq)
  have C: "Cn m = (int_of_loc (pt_x s2) * int_of_loc (pt_x d1) - int_of_loc (pt_x s1) * int_of_loc (pt_x d2)) * int_of_loc (pt_y s0) +
                  (int_of_loc (pt_x s0) * int_of_loc (pt_x d2) - int_of_loc (pt_x s2) * int_of_loc (pt_x d0)) * int_of_loc (pt_y s1) +
                  (int_of_loc (pt_x s1) * int_of_loc (pt_x d0) - int_of_loc (pt_x s0) * int_of_loc (pt_x d1)) * int_of_loc (pt_y s2)"
    unfolding m_def by (simp add: ev del: right_minus_eq)
  have D': "Dn m = ((int_of_loc (pt_y d0) - int_of_loc (pt_y d2)) * (int_of_loc (pt_y s1) - int_of_loc (pt_y s2))) -
                  ((int_of_loc (pt_y d1) - int_of_loc (pt_y d2)) * (int_of_loc (pt_y s0) - int_of_loc (pt_y s2)))"
    unfolding m_def by (simp add: ev del: right_minus_eq)
  have E: "En m = ((int_of_loc (pt_x s0) - int_of_loc (pt_x s2)) * (int_of_loc (pt_y d1) - int_of_loc (pt_y d2))) -
                  ((int_of_loc (pt_y d0) - int_of_loc (pt_y d2)) * (int_of_loc (pt_x s1) - int_of_loc (pt_x s2)))"
    unfolding m_def by (simp add: ev del: right_minus_eq)
  have F: "Fn m = (int_of_loc (pt_x s2) * int_of_loc (pt_y d1) - int_of_loc (pt_x s1) * int_of_loc (pt_y d2)) * int_of_loc (pt_y s0) +
                  (int_of_loc (pt_x s0) * int_of_loc (pt_y d2) - int_of_loc (pt_x s2) * int_of_loc (pt_y d0)) * int_of_loc (pt_y s1) +
                  (int_of_loc (pt_x s1) * int_of_loc (pt_y d0) - int_of_loc (pt_x s0) * int_of_loc (pt_y d1)) * int_of_loc (pt_y s2)"
    unfolding m_def by (simp add: ev del: right_minus_eq)
  have Dw: "Divider m = ((int_of_loc (pt_x s0) - int_of_loc (pt_x s2)) * (int_of_loc (pt_y s1) - int_of_loc (pt_y s2))) -
                  ((int_of_loc (pt_x s1) - int_of_loc (pt_x s2)) * (int_of_loc (pt_y s0) - int_of_loc (pt_y s2)))"
    unfolding D by (rule computed_Divider [symmetric])
  have x0: "An m * int_of_loc (pt_x s0) + Bn m * int_of_loc (pt_y s0) + Cn m = int_of_loc (pt_x d0) * Divider m"
    unfolding A B C Dw by (rule cramer0)
  have y0: "Dn m * int_of_loc (pt_x s0) + En m * int_of_loc (pt_y s0) + Fn m = int_of_loc (pt_y d0) * Divider m"
    unfolding D' E F Dw by (rule cramer0)
  have x1: "An m * int_of_loc (pt_x s1) + Bn m * int_of_loc (pt_y s1) + Cn m = int_of_loc (pt_x d1) * Divider m"
    unfolding A B C Dw by (rule cramer1)
  have y1: "Dn m * int_of_loc (pt_x s1) + En m * int_of_loc (pt_y s1) + Fn m = int_of_loc (pt_y d1) * Divider m"
    unfolding D' E F Dw by (rule cramer1)
  have x2: "An m * int_of_loc (pt_x s2) + Bn m * int_of_loc (pt_y s2) + Cn m = int_of_loc (pt_x d2) * Divider m"
    unfolding A B C Dw by (rule cramer2)
  have y2: "Dn m * int_of_loc (pt_x s2) + En m * int_of_loc (pt_y s2) + Fn m = int_of_loc (pt_y d2) * Divider m"
    unfolding D' E F Dw by (rule cramer2)
  show ?thesis using r D x0 y0 x1 y1 x2 y2 by blast
qed

lemma roundtrip_point:
  assumes "An m * a + Bn m * b + Cn m = int_of_loc (pt_x d) * Divider m"
      and "Dn m * a + En m * b + Fn m = int_of_loc (pt_y d) * Divider m"
      and "Divider m = word_of_int k" "\<bar>k\<bar> \<le> 1046529" "k \<noteq> 0" "display_12bit d"
  shows "getDisplayPoint m a b = d"
proof -
  have "pt_x (getDisplayPoint m a b) = pt_x d"
    using assms by (simp add: getDisplayPoint_def quotient_exact display_12bit_def)
  moreover have "pt_y (getDisplayPoint m a b) = pt_y d"
    using assms by (simp add: getDisplayPoint_def quotient_exact display_12bit_def)
  ultimately show ?thesis by (simp add: getDisplayPoint_def)
qed

lemma clamp_channel_range:
  "unat (clamp_channel g s c) = (if TouchChannels g s \<le> uint c then 0 else unat c)"
  by (simp add: clamp_channel_def)


subsection \<open>The filter and the calibrated read\<close>

lemma filter_keeps:
  assumes "TouchPanelA2DFiltered hw xy s = (ts, xy', s1)"
  shows "tpMatrix s1 = tpMatrix s \<and> touchInfo s1 = touchInfo s \<and>
         panelTouched s1 = panelTouched s \<and> useTouchPanel s1 = useTouchPanel s"
  using assms by (auto simp: TouchPanelA2DFiltered_def Let_def split: if_splits)

lemma readable_resistive:
  assumes "useTouchPanel s = TP_RES"
      and "TouchPanelA2DFiltered hw (0, 0) (upd_touchInfo0 (\<lambda>t. t\<lparr> touchID := 0 \<rparr>) s) = (ts, (a2dX, a2dY), s1)"
      and "ts \<noteq> no_touch"
      and "touchInfo s \<noteq> []"
  shows "TouchPanelReadable hw TouchPoint s =
    (let t0 = touchInfo s ! 0;
         c = (if Divider (tpMatrix s) \<noteq> 0 then getDisplayPoint (tpMatrix s) a2dX a2dY else coordinates t0);
         code = (if Divider (tpMatrix s) \<noteq> 0 then ts else no_cal);
         s' = s1\<lparr> panelTouched := False, numberOfTouchPoints := 1,
                   touchInfo := (touchInfo s)[0 := \<lparr> touchID = 0, touchCode = code, coordinates = c \<rparr>] \<rparr>
     in (case TouchPoint of None \<Rightarrow> (touch, None, s') | Some _ \<Rightarrow> (code, Some c, s')))"
proof -
  obtain t ts' where l: "touchInfo s = t # ts'" using assms(4) by (cases "touchInfo s") auto
  have k: "tpMatrix s1 = tpMatrix s" "touchInfo s1 = (t\<lparr> touchID := 0 \<rparr>) # ts'"
    using filter_keeps [OF assms(2)] l by (simp_all add: upd_touchInfo0_def)
  have r: "TouchPanelReadable hw TouchPoint s =
     (let (ts, s2) =
        (let s2 = s1\<lparr> panelTouched := True, numberOfTouchPoints := 1 \<rparr>
         in if Divider (tpMatrix s2) \<noteq> 0 then
              (ts, upd_touchInfo0
                     (\<lambda>t. t\<lparr> coordinates := getDisplayPoint (tpMatrix s2) a2dX a2dY \<rparr>) s2)
            else (no_cal, s2));
          s3 = upd_touchInfo0 (\<lambda>t. t\<lparr> touchCode := ts \<rparr>) s2
      in if panelTouched s3 then
           (case TouchPoint of
              Some _ \<Rightarrow> (touchCode (touchInfo s3 ! 0), Some (coordinates (touchInfo s3 ! 0)),
                         s3\<lparr> panelTouched := False \<rparr>)
            | None \<Rightarrow> (touch, None, s3\<lparr> panelTouched := False \<rparr>))
         else (ts, TouchPoint, s3))"
    using assms(1,3) by (simp add: TouchPanelReadable_def assms(2) Let_def)
  show ?thesis
    unfolding r using k
    by (cases TouchPoint) (simp_all add: upd_touchInfo0_def Let_def l)
qed

lemma float_of_int32_exact: "\<bar>k\<bar> < 16777216 \<Longrightarrow> float_of_int32 k = k"
proof -
  assume a: "\<bar>k\<bar> < 16777216"
  then have "float_ulp_exp (nat \<bar>k\<bar>) = 0" by (subst float_ulp_exp.simps) simp
  then show ?thesis by (simp add: float_of_int32_def Let_def sgn_mult_abs)
qed

lemma middle_sum_800: "middle_sum (replicate 16 800) = 7200"
  by (simp add: middle_sum_def TPBUFSIZE_def upt_rec)
lemma middle_average_800: "middle_average (replicate 16 800) = 900"
  by (simp add: middle_average_def middle_sum_800 float_of_int32_exact TPBUFSIZE_def signed_divide_int_def)

lemma sort_const_aux:
  "set is \<subseteq> {1 ..< n} \<Longrightarrow> fold (\<lambda>i b. InsertionSort_shift b (b ! i) i) is (replicate n v) = replicate n v"
proof (induction "is")
  case Nil
  then show ?case by simp
next
  case (Cons i "is")
  then obtain j where j: "i = Suc j" "Suc j < n" by (cases i) auto
  have "InsertionSort_shift (replicate n v) (replicate n v ! i) i = replicate n v"
    using j by (simp add: list_update_same_conv)
  then show ?case using Cons by simp
qed

lemma sort_const: "InsertionSort (replicate n v) n = replicate n v"
  unfolding InsertionSort_def by (rule sort_const_aux) auto

lemma poll_filter_append: "poll_filter (a @ b) c = poll_filter b (poll_filter a c)"
  by (induction a c rule: poll_filter.induct) simp_all

lemma s800: "adc_x sample800 = 800" "adc_y sample800 = 800" "tp_pending sample800"
  by (simp_all add: adc_x_def adc_y_def sample800_def)

lemma replicate_snoc: "replicate (Suc k) x = replicate k x @ [x]"
  by (simp add: replicate_append_same)

lemma filter_collect:
  assumes "tp_pending hw" "Suc (touchSample s) \<noteq> TPBUFSIZE" "touchState s \<noteq> touch" "touchState s \<noteq> held"
  shows "TouchPanelA2DFiltered hw xy s =
          (touchState s, xy,
           s\<lparr> timeSinceTouch := 0, ybuf := (ybuf s)[touchSample s := adc_y hw],
              xbuf := (xbuf s)[touchSample s := adc_x hw], touchSample := Suc (touchSample s) \<rparr>)"
  using assms by (simp add: TouchPanelA2DFiltered_def Let_def)

lemma collect_const:
  "k < 16 \<Longrightarrow>
   poll_filter (replicate k sample800) (no_cal, (0, 0), uncalibrated) =
     (no_cal, (0, 0),
      uncalibrated\<lparr> timeSinceTouch := 0,
        ybuf := replicate k 800 @ replicate (16 - k) 0,
        xbuf := replicate k 800 @ replicate (16 - k) 0, touchSample := k \<rparr>)"
proof (induction k)
  case 0
  then show ?case by (simp add: uncalibrated_def)
next
  case (Suc k)
  have u: "(replicate k 800 @ replicate (16 - k) (0 :: 32 word))[k := 800]
             = replicate (Suc k) 800 @ replicate (16 - Suc k) 0"
    using Suc.prems
    by (intro nth_equalityI) (auto simp: nth_append nth_list_update less_Suc_eq simp del: replicate_Suc replicate.simps)
  have "poll_filter (replicate (Suc k) sample800) (no_cal, (0, 0), uncalibrated)
      = poll_filter [sample800] (poll_filter (replicate k sample800) (no_cal, (0, 0), uncalibrated))"
    unfolding replicate_snoc by (rule poll_filter_append)
  also have "\<dots> = (no_cal, (0, 0),
      uncalibrated\<lparr> timeSinceTouch := 0,
        ybuf := replicate (Suc k) 800 @ replicate (16 - Suc k) 0,
        xbuf := replicate (Suc k) 800 @ replicate (16 - Suc k) 0, touchSample := Suc k \<rparr>)"
    using Suc by (simp add: filter_collect s800 TPBUFSIZE_def u uncalibrated_def del: replicate_Suc replicate.simps)
  finally show ?case .
qed

lemma quiet_held:
  "touchState s = held \<Longrightarrow> TouchPanelA2DFiltered quiet xy s = (held, (lastX s, lastY s), s\<lparr> touchState := held \<rparr>)"
  by (simp add: TouchPanelA2DFiltered_def quiet_def)

subsection \<open>The sample counter stays inside the buffers\<close>

text \<open>
  The filter indexes its buffers with \<open>touchSample\<close>. The counter is below
  \<open>TPBUFSIZE\<close> after initialisation, and the filter, the ticker and the calibrated
  read keep it there (\<open>filter_ok\<close>).
\<close>

lemma InsertionSort_shift_length [simp]: "length (InsertionSort_shift buf temp j) = length buf"
  by (induction buf temp j rule: InsertionSort_shift.induct) simp_all

lemma InsertionSort_length [simp]: "length (InsertionSort buf n) = length buf"
proof -
  have "length (fold (\<lambda>i b. InsertionSort_shift b (b ! i) i) xs buf) = length buf" for xs
    by (induction xs arbitrary: buf) simp_all
  then show ?thesis by (simp add: InsertionSort_def)
qed

lemma filter_ok_init: "filter_ok uncalibrated"
  by (simp add: filter_ok_def uncalibrated_def TPBUFSIZE_def)

lemma filter_ok_filter:
  "filter_ok s \<Longrightarrow> filter_ok (snd (snd (TouchPanelA2DFiltered hw xy s)))"
  by (auto simp: filter_ok_def TouchPanelA2DFiltered_def Let_def)

lemma filter_ok_ticker: "filter_ok s \<Longrightarrow> filter_ok (TouchTicker s)"
  by (simp add: filter_ok_def TouchTicker_def TPBUFSIZE_def)

lemma filter_ok_readable:
  "filter_ok s \<Longrightarrow> filter_ok (snd (snd (TouchPanelReadable hw p s)))"
proof -
  assume a: "filter_ok s"
  have u: "filter_ok (upd_touchInfo0 f t) = filter_ok t" for f t
    by (simp add: filter_ok_def upd_touchInfo0_def)
  have v: "filter_ok (t\<lparr> panelTouched := b \<rparr>) = filter_ok t"
          "filter_ok (t\<lparr> numberOfTouchPoints := n \<rparr>) = filter_ok t" for t b n
    by (simp_all add: filter_ok_def)
  obtain ts x y s1 where f: "TouchPanelA2DFiltered hw (0, 0) (upd_touchInfo0 (\<lambda>t. t\<lparr> touchID := 0 \<rparr>) s) = (ts, (x, y), s1)"
    by (cases "TouchPanelA2DFiltered hw (0, 0) (upd_touchInfo0 (\<lambda>t. t\<lparr> touchID := 0 \<rparr>) s)") auto
  have "filter_ok s1"
    using filter_ok_filter [of "upd_touchInfo0 (\<lambda>t. t\<lparr> touchID := 0 \<rparr>) s" hw "(0, 0)"] a
    by (simp add: f u)
  then show ?thesis using a
    by (cases p) (auto simp: TouchPanelReadable_def f Let_def u v split: if_splits)
qed

section \<open>Lemmas on the GIF decoder\<close>

lemma read_code_keeps:
  "read_code n i c s = Inr (code, s1) \<Longrightarrow>
     reset_code_length s1 = reset_code_length s \<and> code_length s1 = code_length s \<and>
     dictionary s1 = dictionary s \<and> dictionary_ind s1 = dictionary_ind s \<and>
     prev_code s1 = prev_code s \<and> out s1 = out s \<and> out_off s1 = out_off s"
proof (induction n arbitrary: i c s)
  case 0
  then show ?case by simp
next
  case (Suc n)
  show ?case
  proof (cases "input s")
    case Nil
    then show ?thesis using Suc.prems by simp
  next
    case (Cons b rest)
    then show ?thesis
      using Suc.prems Suc.IH
      by (auto simp: Let_def split: if_splits dest!: Suc.IH)
  qed
qed

lemma dictionary_init_length [simp]: "length (dictionary_init d n) = length d"
proof -
  have "length (fold (\<lambda>i d. d[i := Some \<lparr> byte = word_of_nat i, prev = - 1, len = 1 \<rparr>]) xs d) = length d" for xs
    by (induction xs arbitrary: d) simp_all
  then show ?thesis by (simp add: dictionary_init_def)
qed

lemma dictionary_init_Suc:
  "dictionary_init d (Suc n) = (dictionary_init d n)[n := Some \<lparr> byte = word_of_nat n, prev = - 1, len = 1 \<rparr>]"
  by (simp add: dictionary_init_def)

lemma dictionary_init_nth:
  "i < length d \<Longrightarrow>
   dictionary_init d n ! i = (if i < n then Some \<lparr> byte = word_of_nat i, prev = - 1, len = 1 \<rparr> else d ! i)"
proof (induction n)
  case 0
  then show ?case by (simp add: dictionary_init_def)
next
  case (Suc n)
  then show ?case by (auto simp: dictionary_init_Suc nth_list_update less_Suc_eq)
qed

lemma realloc_dictionary_length [simp]: "length (realloc_dictionary d n) = n"
  by (simp add: realloc_dictionary_def)

lemma lzw_step_clear:
  assumes "read_code (code_length s + 1) 0 0 s = Inr (code, s1)" and "code = clear_code s"
  shows "lzw_step s = Some (Inr (Continue
              (s1\<lparr> code_length := reset_code_length s,
                   dictionary := dictionary_init
                     (realloc_dictionary (dictionary s) (2 ^ (reset_code_length s + 1)))
                     (2 ^ reset_code_length s),
                   dictionary_ind := 2 ^ reset_code_length s + 1 + 1,
                   prev_code := - 1 \<rparr>)))"
proof -
  have k: "reset_code_length s1 = reset_code_length s" "dictionary s1 = dictionary s"
    using read_code_keeps [OF assms(1)] by simp_all
  then have "clear_code s1 = clear_code s" by (simp add: clear_code_def)
  then show ?thesis using assms k by (simp add: lzw_step_def)
qed

lemma unknown_ext:
  assumes "extension_code \<noteq> GRAPHIC_CONTROL" "extension_code \<noteq> APPLICATION_EXTENSION"
          "extension_code \<noteq> COMMENT_EXTENSION" "extension_code \<noteq> PLAINTEXT_EXTENSION"
  shows "gif_blocks X Y data (EXTENSION_INTRODUCER # extension_code # block_size # fh) g
           = Some (Inr (not_supported_format, fh, g))"
  using assms
  by (subst gif_blocks.simps)
     (simp add: process_gif_extension_def extension_size_def EXTENSION_INTRODUCER_def IMAGE_DESCRIPTOR_def)

lemma read_clear_9:
  "read_code (code_length (lzw_start 9 [0x00, 0x02] 2 []) + 1) 0 0 (lzw_start 9 [0x00, 0x02] 2 [])
     = Inr (512, (lzw_start 9 [0x00, 0x02] 2 [])\<lparr> bit_mask := 0x04, input := [0x02], input_length := 1 \<rparr>)"
proof -
  have n: "code_length (lzw_start 9 [0x00, 0x02] 2 []) + 1 = Suc (Suc (Suc (Suc (Suc (Suc (Suc (Suc (Suc (Suc 0)))))))))"
    by (simp add: lzw_start_def)
  show ?thesis unfolding n by (simp add: lzw_start_def)
qed

lemma read_first_7:
  "read_code (code_length (lzw_start 2 [0x07] 1 ob) + 1) 0 0 (lzw_start 2 [0x07] 1 ob)
     = Inr (7, (lzw_start 2 [0x07] 1 ob)\<lparr> bit_mask := 0x08 \<rparr>)"
proof -
  have n: "code_length (lzw_start 2 [0x07] 1 ob) + 1 = Suc (Suc (Suc 0))"
    by (simp add: lzw_start_def)
  show ?thesis unfolding n by (simp add: lzw_start_def)
qed

lemma read_clear_2:
  "read_code (code_length (lzw_start 2 [0x44, 0x02, 0x05] 3 ob) + 1) 0 0 (lzw_start 2 [0x44, 0x02, 0x05] 3 ob)
     = Inr (4, (lzw_start 2 [0x44, 0x02, 0x05] 3 ob)\<lparr> bit_mask := 0x08 \<rparr>)"
proof -
  have n: "code_length (lzw_start 2 [0x44, 0x02, 0x05] 3 ob) + 1 = Suc (Suc (Suc 0))"
    by (simp add: lzw_start_def)
  show ?thesis unfolding n by (simp add: lzw_start_def)
qed

text \<open>The model at work: the data of the image above, and the whole file.\<close>

lemma sample_decodes:
  "uncompress_gif 2 [0x44, 0x02, 0x05] 3 (replicate 4 None) =
     Some (Inr (noerror, [Some 0, Some 1, Some 1, Some 0]))"
  by code_simp

lemma tiny_gif_renders:
  "RenderGIF 10 20 tiny_gif blank_display =
     Some (Inr (noerror, [],
        blank_display\<lparr> screen_descriptor := \<lparr> screen_width = 2, screen_height = 2, screen_fields = 0x80,
                               background_color_index = 0, pixel_aspect_ratio = 0 \<rparr>,
                        screen_descriptor_isvalid := True,
                        global_color_table := Some [0xF800, 0x001F],
                        global_color_table_size := 2,
                        display_calls := [Window 10 20 2 2,
                                          PixelStream [0xF800, 0x001F, 0x001F, 0xF800] 4 10 20,
                                          WindowRestore] \<rparr>))"
  by code_simp

text \<open>
  Where the test \<open>code > dictionary_ind\<close> is reached, that is with a previous code
  and a code length below 12, it refuses the code.
\<close>

lemma guarded_code_is_checked:
  assumes "read_code (code_length s + 1) 0 0 s = Inr (code, s1)"
      and "code \<noteq> clear_code s" "code \<noteq> stop_code s"
      and "prev_code s > - 1" "code_length s < 12" "code > int (dictionary_ind s)"
  shows "lzw_step s = Some (Inr (Finish not_supported_format s1))"
proof -
  have k: "reset_code_length s1 = reset_code_length s" "prev_code s1 = prev_code s"
          "code_length s1 = code_length s" "dictionary_ind s1 = dictionary_ind s"
    using read_code_keeps [OF assms(1)] by simp_all
  then have c: "clear_code s1 = clear_code s" "stop_code s1 = stop_code s"
    by (simp_all add: clear_code_def stop_code_def)
  have "lzw_extend code s1 = Some (Inr (Some not_supported_format, s1))"
    using assms k by (simp add: lzw_extend_def)
  then show ?thesis using assms c by (simp add: lzw_step_def)
qed

text \<open>
  A file whose one image has LZW code size 2 and the data sub-block \<open>01 07 00\<close> makes
  7 the first code of the decompressor.
\<close>

lemma first_code_in_a_file:
  "RenderGIF 0 0 [0x02, 0x00, 0x02, 0x00, 0x80, 0x00, 0x00,
                  0xFF, 0x00, 0x00, 0x00, 0x00, 0xFF,
                  0x2C, 0x00, 0x00, 0x00, 0x00, 0x02, 0x00, 0x02, 0x00, 0x00,
                  0x02, 0x01, 0x07, 0x00,
                  0x3B] blank_display = Some (Inl DictRead)"
  by code_simp

section \<open>Properties of the touch panel driver\<close>

text \<open>
  C2, as the code has it: when the three raw points are collinear, the solver returns
  \<open>bad_parameter\<close>, writes nothing through \<open>matrixPtr\<close>, keeps the touch state and
  the six numerators of the stored matrix, and stores 0 in its \<open>Divider\<close>, which
  marks the stored matrix as not calibrated. (The claim has the whole stored matrix
  unchanged; the divider is computed in place, before the test.)
\<close>

theorem collinear_calibration_zeroes_Divider:
  assumes "raw_det screenPtr = 0"
  shows "TouchPanelComputeCalibration displayPtr screenPtr matrixPtr s =
           (bad_parameter, matrixPtr, s\<lparr> tpMatrix := (tpMatrix s)\<lparr> Divider := 0 \<rparr> \<rparr>)"
  using assms by (rule calibration_collinear)

theorem collinear_calibration_zeroes_Divider_witness:
  "raw_det (pt 100 100, pt 200 200, pt 300 300) = 0 \<and>
   TouchPanelComputeCalibration (pt 50 50, pt 750 240, pt 400 430)
       (pt 100 100, pt 200 200, pt 300 300) None calibrated =
     (bad_parameter, None, calibrated\<lparr> tpMatrix := (tpMatrix calibrated)\<lparr> Divider := 0 \<rparr> \<rparr>)"
proof -
  have h: "raw_det (pt 100 100, pt 200 200, pt 300 300) = 0"
    by (simp add: raw_det_def pt_def)
  show ?thesis
    using h collinear_calibration_zeroes_Divider [OF h, of "(pt 50 50, pt 750 240, pt 400 430)" None calibrated]
    by simp
qed

text \<open>
  C2 as stated fails: a driver calibrated with the identity matrix (divider 1) that is
  given three collinear raw points ends with a stored matrix that differs from the
  previous one.
\<close>

theorem collinear_calibration_changes_matrix:
  "raw_det (pt 100 100, pt 200 200, pt 300 300) = 0 \<and>
   Divider (tpMatrix calibrated) = 1 \<and>
   Divider (tpMatrix (snd (snd (TouchPanelComputeCalibration (pt 50 50, pt 750 240, pt 400 430)
       (pt 100 100, pt 200 200, pt 300 300) None calibrated)))) = 0 \<and>
   tpMatrix (snd (snd (TouchPanelComputeCalibration (pt 50 50, pt 750 240, pt 400 430)
       (pt 100 100, pt 200 200, pt 300 300) None calibrated))) \<noteq> tpMatrix calibrated"
  by (simp add: raw_det_def TouchPanelComputeCalibration_def pt_def int_of_loc_def calibrated_def
        uncalibrated_def Let_def)

text \<open>
  C5: for every three pairs of points the stored \<open>Divider\<close> is
  \<open>(Xs0-Xs2)*(Ys1-Ys2) - (Xs1-Xs2)*(Ys0-Ys2)\<close> as a 32-bit \<open>int\<close> (and reads as
  exactly that integer whenever it fits 32 bits); the solver returns
  \<open>bad_parameter\<close> if and only if that integer is 0, and \<open>noerror\<close> otherwise; and
  for collinear points it stores no numerator, writes nothing through \<open>matrixPtr\<close>
  and leaves a zero divider, the mark of an invalid matrix.
\<close>

theorem calibration_Divider_and_failure:
  "Divider (tpMatrix (snd (snd (TouchPanelComputeCalibration displayPtr screenPtr matrixPtr s))))
     = word_of_int (raw_det screenPtr) \<and>
   (- 2147483648 \<le> raw_det screenPtr \<and> raw_det screenPtr < 2147483648 \<longrightarrow>
      sint (Divider (tpMatrix (snd (snd (TouchPanelComputeCalibration displayPtr screenPtr matrixPtr s)))))
        = raw_det screenPtr) \<and>
   (fst (TouchPanelComputeCalibration displayPtr screenPtr matrixPtr s) = bad_parameter
      \<longleftrightarrow> raw_det screenPtr = 0) \<and>
   (raw_det screenPtr \<noteq> 0
      \<longrightarrow> fst (TouchPanelComputeCalibration displayPtr screenPtr matrixPtr s) = noerror) \<and>
   (raw_det screenPtr = 0
      \<longrightarrow> TouchPanelComputeCalibration displayPtr screenPtr matrixPtr s =
           (bad_parameter, matrixPtr, s\<lparr> tpMatrix := (tpMatrix s)\<lparr> Divider := 0 \<rparr> \<rparr>))"
  using calibration_collinear [of screenPtr displayPtr matrixPtr s]
  by (simp add: calibration_Divider calibration_result sint32_of_int)

theorem calibration_Divider_and_failure_witness:
  "raw_det (pt 100 120, pt 900 500, pt 500 950) = 512000 \<and>
   sint (Divider (tpMatrix (snd (snd (TouchPanelComputeCalibration (pt 50 50, pt 750 240, pt 400 430)
       (pt 100 120, pt 900 500, pt 500 950) None calibrated))))) = 512000 \<and>
   fst (TouchPanelComputeCalibration (pt 50 50, pt 750 240, pt 400 430)
       (pt 100 120, pt 900 500, pt 500 950) None calibrated) = noerror \<and>
   raw_det (pt 100 100, pt 200 200, pt 300 300) = 0 \<and>
   TouchPanelComputeCalibration (pt 50 50, pt 750 240, pt 400 430)
       (pt 100 100, pt 200 200, pt 300 300) None calibrated =
     (bad_parameter, None, calibrated\<lparr> tpMatrix := (tpMatrix calibrated)\<lparr> Divider := 0 \<rparr> \<rparr>)"
proof -
  have a: "raw_det (pt 100 120, pt 900 500, pt 500 950) = 512000"
    by (simp add: raw_det_def pt_def)
  have b: "raw_det (pt 100 100, pt 200 200, pt 300 300) = 0"
    by (simp add: raw_det_def pt_def)
  show ?thesis
    using a b
      calibration_Divider_and_failure [of "(pt 50 50, pt 750 240, pt 400 430)"
        "(pt 100 120, pt 900 500, pt 500 950)" None calibrated]
      calibration_Divider_and_failure [of "(pt 50 50, pt 750 240, pt 400 430)"
        "(pt 100 100, pt 200 200, pt 300 300)" None calibrated]
    by simp
qed

text \<open>
  C7: a tick that finds more than \<open>NOTOUCH_TIMEOUT_uS\<close> (100 ms) elapsed since the
  last touch resets the sample counter to 0 and moves the state to \<open>release\<close> if it
  was \<open>held\<close> and to \<open>no_touch\<close> otherwise; any other tick changes nothing.
\<close>

theorem ticker_staleness:
  "(timeSinceTouch s > NOTOUCH_TIMEOUT_uS \<longrightarrow>
      touchSample (TouchTicker s) = 0 \<and>
      touchState (TouchTicker s) = (if touchState s = held then release else no_touch)) \<and>
   (\<not> timeSinceTouch s > NOTOUCH_TIMEOUT_uS \<longrightarrow> TouchTicker s = s) \<and>
   NOTOUCH_TIMEOUT_uS = 100 * 1000"
  by (simp add: TouchTicker_def NOTOUCH_TIMEOUT_uS_def)

theorem ticker_staleness_witness:
  "timeSinceTouch (calibrated\<lparr> timeSinceTouch := 100001 \<rparr>) > NOTOUCH_TIMEOUT_uS \<and>
   touchSample (TouchTicker (calibrated\<lparr> timeSinceTouch := 100001 \<rparr>)) = 0 \<and>
   touchState (TouchTicker (calibrated\<lparr> timeSinceTouch := 100001 \<rparr>)) = release \<and>
   \<not> timeSinceTouch (calibrated\<lparr> timeSinceTouch := 100000 \<rparr>) > NOTOUCH_TIMEOUT_uS \<and>
   TouchTicker (calibrated\<lparr> timeSinceTouch := 100000 \<rparr>) = calibrated\<lparr> timeSinceTouch := 100000 \<rparr>"
  using ticker_staleness [of "calibrated\<lparr> timeSinceTouch := 100001 \<rparr>"] ticker_staleness [of "calibrated\<lparr> timeSinceTouch := 100000 \<rparr>"]
  by (simp add: NOTOUCH_TIMEOUT_uS_def calibrated_def)

text \<open>
  C9, as the code has it: for raw points in the documented 10-bit range and display
  coordinates of magnitude at most 2048, solving for non-collinear raw points and
  applying the matrix to each of the three raw points gives back the corresponding
  display point exactly (so also within one unit).
\<close>

theorem calibration_roundtrip:
  assumes "raw_10bit s0" "raw_10bit s1" "raw_10bit s2"
      and "display_12bit d0" "display_12bit d1" "display_12bit d2"
      and "raw_det (s0, s1, s2) \<noteq> 0"
      and "TouchPanelComputeCalibration (d0, d1, d2) (s0, s1, s2) mp s = (r, mo, s')"
  shows "r = noerror \<and>
         getDisplayPoint (tpMatrix s') (int_of_loc (pt_x s0)) (int_of_loc (pt_y s0)) = d0 \<and>
         getDisplayPoint (tpMatrix s') (int_of_loc (pt_x s1)) (int_of_loc (pt_y s1)) = d1 \<and>
         getDisplayPoint (tpMatrix s') (int_of_loc (pt_x s2)) (int_of_loc (pt_y s2)) = d2"
proof -
  obtain m where m:
    "TouchPanelComputeCalibration (d0, d1, d2) (s0, s1, s2) mp s =
            (noerror, map_option (\<lambda>_. m) mp, s\<lparr> tpMatrix := m, touchState := no_touch \<rparr>)"
    "Divider m = word_of_int (raw_det (s0, s1, s2))"
    "An m * int_of_loc (pt_x s0) + Bn m * int_of_loc (pt_y s0) + Cn m = int_of_loc (pt_x d0) * Divider m"
    "Dn m * int_of_loc (pt_x s0) + En m * int_of_loc (pt_y s0) + Fn m = int_of_loc (pt_y d0) * Divider m"
    "An m * int_of_loc (pt_x s1) + Bn m * int_of_loc (pt_y s1) + Cn m = int_of_loc (pt_x d1) * Divider m"
    "Dn m * int_of_loc (pt_x s1) + En m * int_of_loc (pt_y s1) + Fn m = int_of_loc (pt_y d1) * Divider m"
    "An m * int_of_loc (pt_x s2) + Bn m * int_of_loc (pt_y s2) + Cn m = int_of_loc (pt_x d2) * Divider m"
    "Dn m * int_of_loc (pt_x s2) + En m * int_of_loc (pt_y s2) + Fn m = int_of_loc (pt_y d2) * Divider m"
    using calibration_solved [OF assms(7), of d0 d1 d2 mp s] by blast
  have k: "\<bar>raw_det (s0, s1, s2)\<bar> \<le> 1046529"
    using assms(1-3) by (rule raw_det_10bit)
  have s': "r = noerror" "tpMatrix s' = m" using m(1) assms(8) by auto
  show ?thesis unfolding s'
    using roundtrip_point [OF m(3) m(4) m(2) k assms(7) assms(4)]
          roundtrip_point [OF m(5) m(6) m(2) k assms(7) assms(5)]
          roundtrip_point [OF m(7) m(8) m(2) k assms(7) assms(6)]
    by simp
qed

theorem calibration_roundtrip_witness:
  "raw_10bit (pt 100 120) \<and> raw_10bit (pt 900 500) \<and> raw_10bit (pt 500 950) \<and>
   display_12bit (pt 50 50) \<and> display_12bit (pt 750 240) \<and> display_12bit (pt 400 430) \<and>
   raw_det (pt 100 120, pt 900 500, pt 500 950) \<noteq> 0 \<and>
   getDisplayPoint (tpMatrix (snd (snd (TouchPanelComputeCalibration (pt 50 50, pt 750 240, pt 400 430)
        (pt 100 120, pt 900 500, pt 500 950) None uncalibrated))))
        (int_of_loc (pt_x (pt 900 500))) (int_of_loc (pt_y (pt 900 500)))  = pt 750 240"
proof -
  have r: "raw_10bit (pt 100 120)" "raw_10bit (pt 900 500)" "raw_10bit (pt 500 950)"
    by (simp_all add: raw_10bit_def pt_def)
  have d: "display_12bit (pt 50 50)" "display_12bit (pt 750 240)" "display_12bit (pt 400 430)"
    by (simp_all add: display_12bit_def pt_def)
  have n: "raw_det (pt 100 120, pt 900 500, pt 500 950) \<noteq> 0"
    by (simp add: raw_det_def pt_def)
  obtain r' mo s' where e: "TouchPanelComputeCalibration (pt 50 50, pt 750 240, pt 400 430)
        (pt 100 120, pt 900 500, pt 500 950) None uncalibrated = (r', mo, s')"
    by (cases "TouchPanelComputeCalibration (pt 50 50, pt 750 240, pt 400 430)
        (pt 100 120, pt 900 500, pt 500 950) None uncalibrated") auto
  show ?thesis using r d n calibration_roundtrip [OF r d n e] by (simp add: e)
qed

text \<open>
  C9 as stated fails outside that range, as the note in the source warns: for a
  12-bit digitizer the products overflow 32 bits. Raw points (0,0), (4095,0), (0,4095)
  are not collinear; solved against the display points (0,0), (799,0), (0,479), the
  matrix maps the raw point (4095,0) to x = 30 where the display point has x = 799.
\<close>

theorem calibration_roundtrip_overflow:
  "raw_det (pt 0 0, pt 4095 0, pt 0 4095) \<noteq> 0 \<and>
   fst (TouchPanelComputeCalibration (pt 0 0, pt 799 0, pt 0 479) (pt 0 0, pt 4095 0, pt 0 4095) None uncalibrated) = noerror \<and>
   sint (pt_x (getDisplayPoint
        (tpMatrix (snd (snd (TouchPanelComputeCalibration (pt 0 0, pt 799 0, pt 0 479) (pt 0 0, pt 4095 0, pt 0 4095) None uncalibrated))))
        (int_of_loc (pt_x (pt 4095 0))) (int_of_loc (pt_y (pt 4095 0))))) = 30 \<and>
   sint (pt_x (pt 799 0)) = 799"
  by (simp add: raw_det_def pt_def TouchPanelComputeCalibration_def int_of_loc_def Let_def
        getDisplayPoint_def sdiv32_def signed_divide_int_def uncalibrated_def)

text \<open>
  C10: provided the array \<open>touchInfo\<close> holds an entry for every channel and at
  least one (what the constructor allocates is not part of the sources at hand), the
  three accessors read inside the array for every channel argument, and an argument
  not below \<open>TouchChannels()\<close> reads channel 0.
\<close>

theorem accessors_clamp_channel:
  assumes "max 1 (TouchChannels g s) \<le> int (length (touchInfo s))"
  shows "let i = (if TouchChannels g s \<le> uint c then 0 else unat c) in
           i < length (touchInfo s) \<and>
           TouchID g s c = Some (touchID (touchInfo s ! i)) \<and>
           TouchCode g s c = Some (touchCode (touchInfo s ! i)) \<and>
           TouchCoordinates g s c = Some (coordinates (touchInfo s ! i))"
proof -
  have "unat (clamp_channel g s c) < length (touchInfo s)"
  proof (cases "TouchChannels g s \<le> uint c")
    case True
    then show ?thesis using assms by (cases "touchInfo s") (simp_all add: clamp_channel_def)
  next
    case False
    have "uint c < int (length (touchInfo s))" using False assms by linarith
    then have "unat c < length (touchInfo s)"
      by (simp add: unat_eq_nat_uint nat_less_iff del: nat_uint_eq)
    then show ?thesis using False by (simp add: clamp_channel_def)
  qed
  then show ?thesis
    by (simp add: TouchID_def TouchCode_def TouchCoordinates_def touchInfo_at_def clamp_channel_range Let_def)
qed

theorem accessors_clamp_channel_witness:
  "max 1 (TouchChannels 10 uncalibrated) \<le> int (length (touchInfo uncalibrated)) \<and>
   TouchChannels 10 uncalibrated = 1 \<and>
   TouchID 10 uncalibrated 3 = Some (touchID (touchInfo uncalibrated ! 0)) \<and>
   TouchCode 10 uncalibrated 3 = Some (touchCode (touchInfo uncalibrated ! 0)) \<and>
   TouchCoordinates 10 uncalibrated 3 = Some (coordinates (touchInfo uncalibrated ! 0))"
proof -
  have h: "max 1 (TouchChannels 10 uncalibrated) \<le> int (length (touchInfo uncalibrated))"
    by (simp add: TouchChannels_def uncalibrated_def)
  have c: "TouchChannels 10 uncalibrated = 1"
    by (simp add: TouchChannels_def uncalibrated_def)
  show ?thesis using h c accessors_clamp_channel [OF h, of 3] by (simp add: Let_def)
qed


text \<open>
  C4, as the code has it: when the filter delivers a sample (any code but
  \<open>no_touch\<close>) to the resistive driver and the stored \<open>Divider\<close> is 0,
  \<open>TouchPanelReadable\<close> records \<open>no_cal\<close> as the touch code of channel 0, leaves
  the coordinates of channel 0 as they were (no division takes place) and returns
  \<open>no_cal\<close> to a caller that passed a point, \<open>touch\<close> to one that passed none.
  When the \<open>Divider\<close> is not 0 the coordinates of channel 0 become
  \<open>(An*x + Bn*y + Cn) / Divider\<close> and \<open>(Dn*x + En*y + Fn) / Divider\<close>:
  numerators in 32-bit arithmetic, the quotient truncated towards zero (\<open>sdiv\<close>),
  the result narrowed to the 16 bits of a \<open>loc_t\<close>.
\<close>

theorem readable_applies_matrix:
  assumes "useTouchPanel s = TP_RES"
      and "touchInfo s \<noteq> []"
      and "TouchPanelA2DFiltered hw (0, 0) (upd_touchInfo0 (\<lambda>t. t\<lparr> touchID := 0 \<rparr>) s) = (ts, (a2dX, a2dY), s1)"
      and "ts \<noteq> no_touch"
      and "TouchPanelReadable hw TouchPoint s = (r, po, s')"
  shows "(Divider (tpMatrix s) = 0 \<longrightarrow>
            touchCode (touchInfo s' ! 0) = no_cal \<and>
            coordinates (touchInfo s' ! 0) = coordinates (touchInfo s ! 0) \<and>
            r = (if TouchPoint = None then touch else no_cal)) \<and>
         (Divider (tpMatrix s) \<noteq> 0 \<longrightarrow>
            pt_x (coordinates (touchInfo s' ! 0)) =
              ucast (word_of_int (sint (An (tpMatrix s) * a2dX + Bn (tpMatrix s) * a2dY + Cn (tpMatrix s))
                                    sdiv sint (Divider (tpMatrix s))) :: 32 word) \<and>
            pt_y (coordinates (touchInfo s' ! 0)) =
              ucast (word_of_int (sint (Dn (tpMatrix s) * a2dX + En (tpMatrix s) * a2dY + Fn (tpMatrix s))
                                    sdiv sint (Divider (tpMatrix s))) :: 32 word) \<and>
            touchCode (touchInfo s' ! 0) = ts \<and>
            r = (if TouchPoint = None then touch else ts)) \<and>
         po = map_option (\<lambda>_. coordinates (touchInfo s' ! 0)) TouchPoint"
proof -
  obtain t ts' where l: "touchInfo s = t # ts'" using assms(2) by (cases "touchInfo s") auto
  show ?thesis
    using assms(5) unfolding readable_resistive [OF assms(1) assms(3) assms(4) assms(2)]
    by (cases TouchPoint) (auto simp: Let_def l getDisplayPoint_def sdiv32_def)
qed

theorem readable_applies_matrix_witness:
  "useTouchPanel touched = TP_RES \<and> touchInfo touched \<noteq> [] \<and>
   fst (TouchPanelA2DFiltered quiet (0, 0) (upd_touchInfo0 (\<lambda>t. t\<lparr> touchID := 0 \<rparr>) touched)) = held \<and>
   Divider (tpMatrix touched) = 1 \<and>
   fst (TouchPanelReadable quiet (Some (pt 0 0)) touched) = held \<and>
   fst (snd (TouchPanelReadable quiet (Some (pt 0 0)) touched)) = Some (pt 300 200) \<and>
   Divider (tpMatrix decalibrated) = 0 \<and>
   fst (TouchPanelReadable quiet (Some (pt 0 0)) decalibrated) = no_cal \<and>
   fst (snd (TouchPanelReadable quiet (Some (pt 0 0)) decalibrated)) = Some (pt 0 0)"
proof -
  have a: "useTouchPanel touched = TP_RES" "touchInfo touched \<noteq> []"
          "useTouchPanel decalibrated = TP_RES" "touchInfo decalibrated \<noteq> []"
    by (simp_all add: decalibrated_def touched_def calibrated_def uncalibrated_def)
  have st: "touchState (upd_touchInfo0 (\<lambda>t. t\<lparr> touchID := 0 \<rparr>) touched) = held"
           "touchState (upd_touchInfo0 (\<lambda>t. t\<lparr> touchID := 0 \<rparr>) decalibrated) = held"
    by (simp_all add: decalibrated_def touched_def calibrated_def uncalibrated_def upd_touchInfo0_def)
  have f1: "TouchPanelA2DFiltered quiet (0, 0) (upd_touchInfo0 (\<lambda>t. t\<lparr> touchID := 0 \<rparr>) touched)
        = (held, (300, 200), (upd_touchInfo0 (\<lambda>t. t\<lparr> touchID := 0 \<rparr>) touched)\<lparr> touchState := held \<rparr>)"
    unfolding quiet_held [OF st(1)]
    by (simp add: touched_def calibrated_def uncalibrated_def upd_touchInfo0_def)
  have f2: "TouchPanelA2DFiltered quiet (0, 0) (upd_touchInfo0 (\<lambda>t. t\<lparr> touchID := 0 \<rparr>) decalibrated)
        = (held, (300, 200), (upd_touchInfo0 (\<lambda>t. t\<lparr> touchID := 0 \<rparr>) decalibrated)\<lparr> touchState := held \<rparr>)"
    unfolding quiet_held [OF st(2)]
    by (simp add: decalibrated_def touched_def calibrated_def uncalibrated_def upd_touchInfo0_def)
  obtain r1 p1 s1 where e1: "TouchPanelReadable quiet (Some (pt 0 0)) touched = (r1, p1, s1)"
    by (cases "TouchPanelReadable quiet (Some (pt 0 0)) touched") auto
  obtain r2 p2 s2 where e2: "TouchPanelReadable quiet (Some (pt 0 0)) decalibrated = (r2, p2, s2)"
    by (cases "TouchPanelReadable quiet (Some (pt 0 0)) decalibrated") auto
  have m: "tpMatrix touched = \<lparr> An = 1, Bn = 0, Cn = 0, Dn = 0, En = 1, Fn = 0, Divider = 1 \<rparr>"
          "coordinates (touchInfo decalibrated ! 0) = pt 0 0"
          "Divider (tpMatrix decalibrated) = 0"
    by (simp_all add: decalibrated_def touched_def calibrated_def uncalibrated_def pt_def)
  have c1: "coordinates (touchInfo s1 ! 0) = pt 300 200"
    using readable_applies_matrix [OF a(1) a(2) f1 _ e1]
    by (intro point_t.equality) (simp_all add: m pt_def signed_divide_int_def)
  show ?thesis
    using readable_applies_matrix [OF a(1) a(2) f1 _ e1] readable_applies_matrix [OF a(3) a(4) f2 _ e2] a f1 c1
    by (simp add: e1 e2 m)
qed

text \<open>
  C4 as stated fails for the default argument: with a null \<open>TouchPoint\<close> a driver
  whose \<open>Divider\<close> is 0 and whose filter delivers the sample (300, 200) returns
  \<open>touch\<close>, not \<open>no_cal\<close>.
\<close>

theorem readable_null_pointer_reports_touch:
  "Divider (tpMatrix decalibrated) = 0 \<and>
   TouchPanelA2DFiltered quiet (0, 0) decalibrated
     = (held, (300, 200), decalibrated) \<and>
   fst (TouchPanelReadable quiet None decalibrated) = touch"
  by (simp add: TouchPanelReadable_def TouchPanelA2DFiltered_def quiet_def decalibrated_def touched_def
        calibrated_def uncalibrated_def upd_touchInfo0_def Let_def)

text \<open>
  C8 fails on the code: the summing loop starts at index \<open>TPBUFSIZE/4 - 1 = 3\<close> and
  so adds nine sorted samples (indices 3 to 11), which it divides by 8. Sixteen
  polls that each read 800 on both axes report (900, 900), where the mean of the
  middle eight samples, as of any samples of this window, is 800.
\<close>

theorem filter_sums_nine_samples:
  "poll_filter (replicate 16 sample800) (no_cal, (0, 0), uncalibrated) =
     (touch, (900, 900),
      uncalibrated\<lparr> timeSinceTouch := 0, ybuf := replicate 16 800, xbuf := replicate 16 800,
        lastY := 900, lastX := 900, touchState := touch, touchSample := 0 \<rparr>)"
proof -
  have "replicate 16 sample800 = replicate 15 sample800 @ [sample800]"
    using replicate_snoc [of 15 sample800] by simp
  then have "poll_filter (replicate 16 sample800) (no_cal, (0, 0), uncalibrated)
      = poll_filter [sample800] (poll_filter (replicate 15 sample800) (no_cal, (0, 0), uncalibrated))"
    by (simp only: poll_filter_append)
  also have "\<dots> = TouchPanelA2DFiltered sample800 (0, 0)
       (uncalibrated\<lparr> timeSinceTouch := 0,
        ybuf := replicate 15 800 @ replicate (16 - 15) 0,
        xbuf := replicate 15 800 @ replicate (16 - 15) 0, touchSample := 15 \<rparr>)"
    by (simp add: collect_const del: replicate_Suc replicate.simps)
  also have "\<dots> = (touch, (900, 900),
      uncalibrated\<lparr> timeSinceTouch := 0, ybuf := replicate 16 800, xbuf := replicate 16 800,
        lastY := 900, lastX := 900, touchState := touch, touchSample := 0 \<rparr>)"
  proof -
    have f: "(replicate 15 800 @ replicate (Suc 0) (0 :: 32 word))[15 := 800] = replicate 16 800"
      by (intro nth_equalityI) (auto simp: nth_append nth_list_update)
    have st: "touchState uncalibrated = no_cal" by (simp add: uncalibrated_def)
    show ?thesis
      by (simp add: TouchPanelA2DFiltered_def s800 TPBUFSIZE_def Let_def f st
             sort_const [of 16 800] middle_average_800 del: replicate_Suc replicate.simps)
  qed
  finally show ?thesis .
qed

section \<open>Properties of the GIF decoder\<close>

text \<open>
  C1, as the code has it: when the block loop reads an extension introducer followed
  by an extension code other than graphic control, application, comment and plain
  text (and the block-size byte that completes the two-byte header), the parse
  fails: \<open>process_gif_extension\<close> returns 0 without reading any sub-block and
  \<open>_RenderGIF\<close> returns \<open>not_supported_format\<close>, the display untouched.
\<close>

theorem unrecognized_extension_is_fatal:
  assumes "extension_code \<noteq> GRAPHIC_CONTROL" "extension_code \<noteq> APPLICATION_EXTENSION"
          "extension_code \<noteq> COMMENT_EXTENSION" "extension_code \<noteq> PLAINTEXT_EXTENSION"
  shows "process_gif_extension (extension_code # block_size # fh) = (0, fh) \<and>
         gif_blocks ScreenX ScreenY data (EXTENSION_INTRODUCER # extension_code # block_size # fh) g
           = Some (Inr (not_supported_format, fh, g))"
  using assms unknown_ext [OF assms]
  by (simp add: process_gif_extension_def extension_size_def)

theorem unrecognized_extension_is_fatal_witness:
  "(0xAB :: 8 word) \<noteq> GRAPHIC_CONTROL \<and> (0xAB :: 8 word) \<noteq> APPLICATION_EXTENSION \<and>
   (0xAB :: 8 word) \<noteq> COMMENT_EXTENSION \<and> (0xAB :: 8 word) \<noteq> PLAINTEXT_EXTENSION \<and>
   process_gif_extension [0xAB, 0x00, 0x00, 0x3B] = (0, [0x00, 0x3B]) \<and>
   gif_blocks 0 0 None [0x21, 0xAB, 0x00, 0x00, 0x3B] blank_display
     = Some (Inr (not_supported_format, [0x00, 0x3B], blank_display))"
proof -
  have x: "(0xAB :: 8 word) \<noteq> GRAPHIC_CONTROL" "(0xAB :: 8 word) \<noteq> APPLICATION_EXTENSION"
          "(0xAB :: 8 word) \<noteq> COMMENT_EXTENSION" "(0xAB :: 8 word) \<noteq> PLAINTEXT_EXTENSION"
    by (simp_all add: GRAPHIC_CONTROL_def APPLICATION_EXTENSION_def COMMENT_EXTENSION_def PLAINTEXT_EXTENSION_def)
  have i: "(0x21 :: 8 word) = EXTENSION_INTRODUCER" by (simp add: EXTENSION_INTRODUCER_def)
  show ?thesis
    using x unrecognized_extension_is_fatal [OF x, of "0x00" "[0x00, 0x3B]" 0 0 None blank_display]
    by (simp add: i)
qed

text \<open>
  C1 as stated fails: a file with a 2 x 2 screen, no global colour table, one
  extension of the unrecognized code \<open>0xAB\<close> with an empty chain of sub-blocks, and
  the trailer, is refused with \<open>not_supported_format\<close>, where skipping the
  extension would reach the trailer and return \<open>noerror\<close>.
\<close>

theorem unrecognized_extension_refused:
  "RenderGIF 0 0 [0x02, 0x00, 0x02, 0x00, 0x00, 0x00, 0x00, 0x21, 0xAB, 0x00, 0x00, 0x3B] blank_display
     = Some (Inr (not_supported_format, [0x00, 0x3B],
          blank_display\<lparr> screen_descriptor := \<lparr> screen_width = 2, screen_height = 2, screen_fields = 0,
                               background_color_index = 0, pixel_aspect_ratio = 0 \<rparr>,
                          screen_descriptor_isvalid := True \<rparr>))"
proof -
  have x: "(0xAB :: 8 word) \<noteq> GRAPHIC_CONTROL" "(0xAB :: 8 word) \<noteq> APPLICATION_EXTENSION"
          "(0xAB :: 8 word) \<noteq> COMMENT_EXTENSION" "(0xAB :: 8 word) \<noteq> PLAINTEXT_EXTENSION"
    by (simp_all add: GRAPHIC_CONTROL_def APPLICATION_EXTENSION_def COMMENT_EXTENSION_def PLAINTEXT_EXTENSION_def)
  have i: "(0x21 :: 8 word) = EXTENSION_INTRODUCER" by (simp add: EXTENSION_INTRODUCER_def)
  show ?thesis
    by (simp add: RenderGIF_def GetGIFHeader_def gif_screen_descriptor_size_def screen_descriptor_of_def
          screen_descriptor_bytes_def le16_def blank_display_def Let_def i unknown_ext [OF x])
qed

text \<open>
  C3 fails on the code: the test \<open>code > dictionary_ind\<close> stands inside the block
  guarded by \<open>(prev > -1) && (code_length < 12)\<close>, so the first code of a stream
  (and the first after a clear code) is not tested. With code length 2 and the one
  input byte \<open>0x07\<close> the first code is 7, above \<open>dictionary_ind = 6\<close>: the code
  does not return \<open>not_supported_format\<close> but reads \<open>dictionary[7].len\<close>, an entry
  that was never written.
\<close>

theorem first_code_is_not_checked:
  "uncompress_gif 2 [0x07] 1 (replicate 4 None) = Some (Inl DictRead)"
proof -
  let ?s = "lzw_start 2 [0x07] 1 (replicate 4 None)"
  have d: "dict_read (dictionary ?s) 7 = None"
    by (simp add: dict_read_def lzw_start_def dictionary_init_nth)
  have e: "lzw_extend 7 (?s\<lparr> bit_mask := 0x08 \<rparr>) = Some (Inr (None, ?s\<lparr> bit_mask := 0x08 \<rparr>))"
    by (simp add: lzw_extend_def lzw_start_def)
  have c: "clear_code (?s\<lparr> bit_mask := 0x08 \<rparr>) = 4" "stop_code (?s\<lparr> bit_mask := 0x08 \<rparr>) = 5"
    by (simp_all add: clear_code_def stop_code_def lzw_start_def)
  have "lzw_step ?s = Some (Inl DictRead)"
    unfolding lzw_step_def read_first_7 by (simp add: c e d)
  moreover have "input_length ?s \<noteq> 0" by (simp add: lzw_start_def)
  ultimately have "lzw_loop ?s = Some (Inl DictRead)"
    by (subst lzw_loop.simps) simp
  then show ?thesis by (simp add: uncompress_gif_def)
qed

text \<open>
  C6, as the code has it: a turn of the loop that reads the clear code continues the
  loop with the code width back at the initial code length, the dictionary
  reallocated to twice \<open>2 ^ code length\<close> entries of which the first
  \<open>2 ^ code length\<close> are \<open>byte = (uint8_t) index\<close>, \<open>prev = -1\<close>, \<open>len = 1\<close>, the
  next free index one past the stop code, and no previous code; the output written
  so far is kept. The byte is the index itself whenever the initial code length is
  at most 8, as in every valid GIF.
\<close>

theorem clear_code_resets:
  assumes "read_code (code_length s + 1) 0 0 s = Inr (code, s1)" and "code = clear_code s"
  shows "\<exists>s'. lzw_step s = Some (Inr (Continue s')) \<and>
           code_length s' = reset_code_length s \<and>
           length (dictionary s') = 2 ^ (reset_code_length s + 1) \<and>
           (\<forall>i < 2 ^ reset_code_length s.
              dictionary s' ! i = Some \<lparr> byte = word_of_nat i, prev = - 1, len = 1 \<rparr>) \<and>
           (reset_code_length s \<le> 8 \<longrightarrow>
              (\<forall>i < 2 ^ reset_code_length s.
                 map_option (\<lambda>e. (unat (byte e), prev e, len e)) (dictionary s' ! i) = Some (i, - 1, 1))) \<and>
           int (dictionary_ind s') = stop_code s + 1 \<and>
           prev_code s' = - 1 \<and>
           input s' = input s1 \<and> input_length s' = input_length s1 \<and> bit_mask s' = bit_mask s1 \<and>
           out s' = out s \<and> out_off s' = out_off s \<and> reset_code_length s' = reset_code_length s"
proof -
  have k: "out s1 = out s" "out_off s1 = out_off s" "reset_code_length s1 = reset_code_length s"
    using read_code_keeps [OF assms(1)] by simp_all
  have u: "unat (word_of_nat i :: 8 word) = i"
    if "reset_code_length s \<le> 8" "i < 2 ^ reset_code_length s" for i
  proof -
    have "(2 :: nat) ^ reset_code_length s \<le> 2 ^ 8" using that(1) by (intro power_increasing) auto
    then have "i < 256" using that(2) by simp
    then show ?thesis by (simp add: unat_of_nat take_bit_nat_eq_self)
  qed
  show ?thesis
    unfolding lzw_step_clear [OF assms]
    by (rule exI, intro conjI, rule refl)
       (simp_all add: dictionary_init_nth k u stop_code_def clear_code_def)
qed

theorem clear_code_resets_witness:
  "read_code (code_length (lzw_start 2 [0x44, 0x02, 0x05] 3 []) + 1) 0 0 (lzw_start 2 [0x44, 0x02, 0x05] 3 [])
     = Inr (4, (lzw_start 2 [0x44, 0x02, 0x05] 3 [])\<lparr> bit_mask := 0x08 \<rparr>) \<and>
   4 = clear_code (lzw_start 2 [0x44, 0x02, 0x05] 3 []) \<and>
   (\<exists>s'. lzw_step (lzw_start 2 [0x44, 0x02, 0x05] 3 []) = Some (Inr (Continue s')) \<and>
         code_length s' = 2 \<and> length (dictionary s') = 8 \<and>
         dictionary s' ! 3 = Some \<lparr> byte = 3, prev = - 1, len = 1 \<rparr> \<and>
         dictionary_ind s' = 6 \<and> prev_code s' = - 1)"
proof -
  have c: "4 = clear_code (lzw_start 2 [0x44, 0x02, 0x05] 3 [])"
    by (simp add: clear_code_def lzw_start_def)
  have r: "reset_code_length (lzw_start 2 [0x44, 0x02, 0x05] 3 []) = 2"
          "stop_code (lzw_start 2 [0x44, 0x02, 0x05] 3 []) = 5"
    by (simp_all add: lzw_start_def stop_code_def clear_code_def)
  obtain s' where s':
    "lzw_step (lzw_start 2 [0x44, 0x02, 0x05] 3 []) = Some (Inr (Continue s'))"
    "code_length s' = 2" "length (dictionary s') = 8"
    "\<forall>i < 4. dictionary s' ! i = Some \<lparr> byte = word_of_nat i, prev = - 1, len = 1 \<rparr>"
    "int (dictionary_ind s') = 6" "prev_code s' = - 1"
    using clear_code_resets [OF read_clear_2 c] unfolding r by auto
  have "dictionary s' ! 3 = Some \<lparr> byte = 3, prev = - 1, len = 1 \<rparr>"
    using s'(4) by (drule_tac x = 3 in spec) simp
  then show ?thesis using read_clear_2 [of "[]"] c s' by auto
qed

text \<open>
  C6 as stated fails for an initial code length above 8, which the code accepts (it
  is a byte of the file, not range-checked): with code length 9 the clear code
  leaves entry 256 with \<open>byte = 0\<close>, since \<open>byte\<close> has 8 bits.
\<close>

theorem clear_code_byte_truncated:
  "\<exists>s'. lzw_step (lzw_start 9 [0x00, 0x02] 2 []) = Some (Inr (Continue s')) \<and>
        dictionary s' ! 256 = Some \<lparr> byte = 0, prev = - 1, len = 1 \<rparr>"
proof -
  have c: "512 = clear_code (lzw_start 9 [0x00, 0x02] 2 [])"
    by (simp add: clear_code_def lzw_start_def)
  show ?thesis
    unfolding lzw_step_clear [OF read_clear_9 c]
    by (rule exI, rule conjI, rule refl) (simp add: dictionary_init_nth lzw_start_def)
qed

end
